theory Spec2Isabelle
  imports Complex_Main
begin

section \<open>Expense tracker: aggregation engine and consistency coordinator\<close>

text \<open>
  A shallow embedding of \<^verbatim>\<open>src/utils/calculations.ts\<close> (the aggregation functions) and
  of the handlers of \<^verbatim>\<open>DataProvider\<close> in \<^verbatim>\<open>src/contexts/DataContext.tsx\<close>.

  Conventions of the embedding:
  \<^item> a JavaScript \<^verbatim>\<open>number\<close> holding an amount is a \<^typ>\<open>real\<close>: the arithmetic is exact,
    IEEE rounding, \<^verbatim>\<open>NaN\<close> and the infinities are not modelled;
  \<^item> a valid \<^verbatim>\<open>Date\<close> is its time value, an \<^typ>\<open>int\<close> of milliseconds since the epoch;
    a \<^verbatim>\<open>Date\<close> that may be invalid is an \<^typ>\<open>int option\<close>, \<open>None\<close> being
    \<^verbatim>\<open>Invalid Date\<close>, which compares false with everything;
  \<^item> an optional property (\<^verbatim>\<open>x?: T\<close>) is an \<open>option\<close>, \<open>None\<close> being \<^verbatim>\<open>undefined\<close>;
  \<^item> the fields of the entities carry a prefix (\<open>i_\<close> income, \<open>e_\<close> expense, \<open>b_\<close> budget,
    \<open>g_\<close> savings goal, \<open>a_\<close> bank account, \<open>fs_\<close> financial summary), because several
    entities have fields of the same name;
  \<^item> what a function reads from its environment is a parameter: the wall clock
    (\<^verbatim>\<open>new Date()\<close>) is \<open>now\<close>, a generated id (\<^verbatim>\<open>generateId()\<close>) is \<open>newId\<close>, the
    functions imported from the library \<^verbatim>\<open>date-fns\<close> are the fields of a record
    \<open>datefns\<close>, and \<^verbatim>\<open>String.prototype.toLowerCase\<close> is the parameter \<open>toLowerCase\<close> of
    the functions that call it.
\<close>

subsection \<open>The date library\<close>

record datefns =
  parseISO :: "string \<Rightarrow> int option"
  startOfMonth :: "int \<Rightarrow> int"
  endOfMonth :: "int \<Rightarrow> int"
  addMonths :: "int \<Rightarrow> int \<Rightarrow> int"

text \<open>
  \<^verbatim>\<open>isWithinInterval(date, {start, end})\<close> of date-fns compares time values:
  \<^verbatim>\<open>time >= startTime && time <= endTime\<close>. An invalid date is in no interval.
\<close>

definition isWithinInterval :: "int option \<Rightarrow> int \<Rightarrow> int \<Rightarrow> bool" where
  "isWithinInterval d start end' =
     (case d of None \<Rightarrow> False | Some t \<Rightarrow> start \<le> t \<and> t \<le> end')"

text \<open>The comparisons \<^verbatim>\<open>d >= x\<close> and \<^verbatim>\<open>d <= x\<close> of a possibly invalid date with a valid one.\<close>

definition date_ge :: "int option \<Rightarrow> int \<Rightarrow> bool" where
  "date_ge d x = (case d of None \<Rightarrow> False | Some t \<Rightarrow> x \<le> t)"

definition date_le :: "int option \<Rightarrow> int \<Rightarrow> bool" where
  "date_le d x = (case d of None \<Rightarrow> False | Some t \<Rightarrow> t \<le> x)"

text \<open>\<^verbatim>\<open>Date.prototype.getTime\<close>; the time value of an invalid date is \<^verbatim>\<open>NaN\<close>, here \<open>0\<close>
  (the code below calls it on valid dates only).\<close>

definition getTime :: "int option \<Rightarrow> int" where
  "getTime d = (case d of None \<Rightarrow> 0 | Some t \<Rightarrow> t)"

subsubsection \<open>An instance of the library: the proleptic Gregorian calendar in UTC\<close>

text \<open>
  For evaluating the functions at concrete dates, \<open>utc\<close> implements the four functions
  for the time zone UTC. \<open>parseISO_utc\<close> reads the two forms of date string the
  application writes: the date-only form \<^verbatim>\<open>YYYY-MM-DD\<close> (midnight) and the form of
  \<^verbatim>\<open>Date.prototype.toISOString\<close>, \<^verbatim>\<open>YYYY-MM-DDTHH:MM:SS.sssZ\<close>; every other string is an
  invalid date here.
\<close>

definition msPerDay :: int where
  "msPerDay = 86400000"

definition days_from_civil :: "int \<Rightarrow> int \<Rightarrow> int \<Rightarrow> int" where
  "days_from_civil y m d =
     (let y' = (if m \<le> 2 then y - 1 else y);
          era = y' div 400;
          yoe = y' - era * 400;
          doy = (153 * (if 2 < m then m - 3 else m + 9) + 2) div 5 + d - 1;
          doe = yoe * 365 + yoe div 4 - yoe div 100 + doy
      in era * 146097 + doe - 719468)"

definition civil_from_days :: "int \<Rightarrow> int \<times> int \<times> int" where
  "civil_from_days z =
     (let z' = z + 719468;
          era = z' div 146097;
          doe = z' - era * 146097;
          yoe = (doe - doe div 1460 + doe div 36524 - doe div 146096) div 365;
          doy = doe - (365 * yoe + yoe div 4 - yoe div 100);
          mp = (5 * doy + 2) div 153;
          d = doy - (153 * mp + 2) div 5 + 1;
          m = (if mp < 10 then mp + 3 else mp - 9);
          y = yoe + era * 400
      in (if m \<le> 2 then y + 1 else y, m, d))"

definition daysInMonth :: "int \<Rightarrow> int \<Rightarrow> int" where
  "daysInMonth y m =
     (if m = 12 then days_from_civil (y + 1) 1 1 - days_from_civil y 12 1
      else days_from_civil y (m + 1) 1 - days_from_civil y m 1)"

definition startOfMonth_utc :: "int \<Rightarrow> int" where
  "startOfMonth_utc t =
     (case civil_from_days (t div msPerDay) of
        (y, m, d) \<Rightarrow> days_from_civil y m 1 * msPerDay)"

definition endOfMonth_utc :: "int \<Rightarrow> int" where
  "endOfMonth_utc t =
     (case civil_from_days (t div msPerDay) of
        (y, m, d) \<Rightarrow> (days_from_civil y m 1 + daysInMonth y m) * msPerDay - 1)"

text \<open>\<^verbatim>\<open>addMonths\<close> keeps the day of the month, or takes the last day of the target month
  when that month is shorter, and keeps the time of day.\<close>

definition addMonths_utc :: "int \<Rightarrow> int \<Rightarrow> int" where
  "addMonths_utc t n =
     (case civil_from_days (t div msPerDay) of
        (y, m, d) \<Rightarrow>
          (let k = y * 12 + (m - 1) + n;
               y' = k div 12;
               m' = k mod 12 + 1;
               d' = min d (daysInMonth y' m')
           in days_from_civil y' m' d' * msPerDay + t mod msPerDay))"

definition digit :: "char \<Rightarrow> int option" where
  "digit c = (let n = (of_char c :: nat) in
     if 48 \<le> n \<and> n \<le> 57 then Some (int n - 48) else None)"

fun number :: "int \<Rightarrow> string \<Rightarrow> int option" where
  "number acc [] = Some acc"
| "number acc (c # cs) =
     (case digit c of None \<Rightarrow> None | Some v \<Rightarrow> number (acc * 10 + v) cs)"

definition field :: "nat \<Rightarrow> nat \<Rightarrow> string \<Rightarrow> int option" where
  "field pos len s = number 0 (take len (drop pos s))"

definition parseDate_utc :: "string \<Rightarrow> int option" where
  "parseDate_utc s =
     (case (field 0 4 s, field 5 2 s, field 8 2 s) of
        (Some y, Some m, Some d) \<Rightarrow>
          if length s = 10 \<and> s ! 4 = CHR ''-'' \<and> s ! 7 = CHR ''-''
             \<and> 1 \<le> m \<and> m \<le> 12 \<and> 1 \<le> d \<and> d \<le> daysInMonth y m
          then Some (days_from_civil y m d * msPerDay) else None
      | _ \<Rightarrow> None)"

definition parseTime_utc :: "string \<Rightarrow> int option" where
  "parseTime_utc s =
     (case (field 1 2 s, field 4 2 s, field 7 2 s, field 10 3 s) of
        (Some h, Some mi, Some sec, Some ms) \<Rightarrow>
          if length s = 14 \<and> s ! 0 = CHR ''T'' \<and> s ! 3 = CHR '':'' \<and> s ! 6 = CHR '':''
             \<and> s ! 9 = CHR ''.'' \<and> s ! 13 = CHR ''Z''
             \<and> h < 24 \<and> mi < 60 \<and> sec < 60
          then Some (((h * 60 + mi) * 60 + sec) * 1000 + ms) else None
      | _ \<Rightarrow> None)"

definition parseISO_utc :: "string \<Rightarrow> int option" where
  "parseISO_utc s =
     (if length s = 10 then parseDate_utc s
      else case (parseDate_utc (take 10 s), parseTime_utc (drop 10 s)) of
             (Some day, Some time) \<Rightarrow> Some (day + time)
           | _ \<Rightarrow> None)"

definition utc :: datefns where
  "utc = \<lparr> parseISO = parseISO_utc, startOfMonth = startOfMonth_utc,
           endOfMonth = endOfMonth_utc, addMonths = addMonths_utc \<rparr>"

subsection \<open>The entities\<close>

record income =
  i_id :: string
  i_userId :: string
  i_bankAccountId :: string
  i_source :: string
  i_amount :: real
  i_frequency :: string
  i_date :: string
  i_description :: string

record expense =
  e_id :: string
  e_userId :: string
  e_bankAccountId :: string
  e_category :: string
  e_amount :: real
  e_date :: string
  e_description :: string
  e_isRecurring :: bool
  e_frequency :: string
  e_nextDueDate :: "string option"

record budget =
  b_id :: string
  b_userId :: string
  b_category :: string
  b_budgetAmount :: real
  b_period :: string
  b_alertThreshold :: real

record bankAccount =
  a_id :: string
  a_userId :: string
  a_bankId :: string
  a_bankName :: string
  a_nickname :: "string option"
  a_totalIncome :: real
  a_totalExpense :: real
  a_createdAt :: string
  a_startingBalance :: real
  a_currentBalance :: real

record savingsGoal =
  g_id :: string
  g_userId :: string
  g_title :: string
  g_bankAccountId :: "string option"
  g_autoTrackedAmount :: "real option"

record financialSummary =
  fs_totalIncome :: real
  fs_totalExpenses :: real
  fs_savings :: real
  fs_savingsRate :: "real option"
  fs_monthlyBudgetUsed :: real
  fs_monthlyBudgetRemaining :: real
  fs_upcomingBills :: "expense list"

subsection \<open>The aggregation functions of \<^verbatim>\<open>calculations.ts\<close>\<close>

text \<open>
  \<^verbatim>\<open>x / y\<close> with a divisor that may be zero: JavaScript returns \<^verbatim>\<open>Infinity\<close> or \<^verbatim>\<open>NaN\<close>
  there, which no \<^typ>\<open>real\<close> stands for, so the quotient is an \<open>option\<close> and \<open>None\<close> is
  the value that is not a finite number. (The division \<^verbatim>\<open>amount / 12\<close> is by a constant and
  stays the division of \<^typ>\<open>real\<close>.)
\<close>

definition jsDivide :: "real \<Rightarrow> real \<Rightarrow> real option" where
  "jsDivide x y = (if y = 0 then None else Some (x / y))"

text \<open>\<^verbatim>\<open>xs.reduce(f, 0)\<close> is \<open>foldl f 0 xs\<close>; the reference date \<open>date\<close> is a valid date.\<close>

definition calculateMonthlyIncome :: "datefns \<Rightarrow> income list \<Rightarrow> int \<Rightarrow> real" where
  "calculateMonthlyIncome dl incomes date =
     (let monthStart = startOfMonth dl date;
          monthEnd = endOfMonth dl date
      in foldl (\<lambda>total income.
           let incomeDate = parseISO dl (i_date income) in
           if i_frequency income = ''monthly'' then total + i_amount income
           else if i_frequency income = ''yearly'' then total + i_amount income / 12
           else if i_frequency income = ''one-time''
                   \<and> date_ge incomeDate monthStart \<and> date_le incomeDate monthEnd
                then total + i_amount income
           else total) 0 incomes)"

definition calculateMonthlyExpenses :: "datefns \<Rightarrow> expense list \<Rightarrow> int \<Rightarrow> real" where
  "calculateMonthlyExpenses dl expenses date =
     (let monthStart = startOfMonth dl date;
          monthEnd = endOfMonth dl date
      in foldl (\<lambda>total expense.
           let expenseDate = parseISO dl (e_date expense) in
           if e_isRecurring expense \<and> e_frequency expense = ''monthly''
           then total + e_amount expense
           else if e_isRecurring expense \<and> e_frequency expense = ''yearly''
           then total + e_amount expense / 12
           else if \<not> e_isRecurring expense \<and> isWithinInterval expenseDate monthStart monthEnd
           then total + e_amount expense
           else total) 0 expenses)"

definition calculateCategoryExpenses ::
  "datefns \<Rightarrow> expense list \<Rightarrow> string \<Rightarrow> int \<Rightarrow> real" where
  "calculateCategoryExpenses dl expenses category date =
     (let monthStart = startOfMonth dl date;
          monthEnd = endOfMonth dl date
      in foldl (\<lambda>total expense.
           let expenseDate = parseISO dl (e_date expense) in
           if e_isRecurring expense \<and> e_frequency expense = ''monthly''
           then total + e_amount expense
           else if e_isRecurring expense \<and> e_frequency expense = ''yearly''
           then total + e_amount expense / 12
           else if \<not> e_isRecurring expense \<and> isWithinInterval expenseDate monthStart monthEnd
           then total + e_amount expense
           else total) 0
         (filter (\<lambda>expense. e_category expense = category) expenses))"

text \<open>The truth value of an optional string: \<^verbatim>\<open>undefined\<close> and the empty string are falsy.\<close>

definition truthy :: "string option \<Rightarrow> bool" where
  "truthy s = (case s of None \<Rightarrow> False | Some v \<Rightarrow> v \<noteq> [])"

text \<open>\<^verbatim>\<open>parseISO(expense.nextDueDate!)\<close>; the callers have checked that the string is there.\<close>

definition dueDate :: "datefns \<Rightarrow> expense \<Rightarrow> int option" where
  "dueDate dl expense =
     (case e_nextDueDate expense of None \<Rightarrow> None | Some s \<Rightarrow> parseISO dl s)"

text \<open>
  \<^verbatim>\<open>getUpcomingBills(expenses, daysAhead = 7)\<close> reads the clock (\<open>now\<close>). Its body never
  uses \<open>daysAhead\<close>: the end of the window is \<^verbatim>\<open>addMonths(now, 1)\<close>. \<^verbatim>\<open>Array.prototype.sort\<close>
  is stable, as \<^const>\<open>sort_key\<close> is.
\<close>

definition getUpcomingBills :: "datefns \<Rightarrow> int \<Rightarrow> expense list \<Rightarrow> real \<Rightarrow> expense list" where
  "getUpcomingBills dl now expenses daysAhead =
     (let futureDate = addMonths dl now 1
      in sort_key (\<lambda>a. getTime (dueDate dl a))
           (filter (\<lambda>expense. date_ge (dueDate dl expense) now
                              \<and> date_le (dueDate dl expense) futureDate)
             (filter (\<lambda>expense. e_isRecurring expense \<and> truthy (e_nextDueDate expense))
               expenses)))"

definition calculateFinancialSummary ::
  "datefns \<Rightarrow> int \<Rightarrow> income list \<Rightarrow> expense list \<Rightarrow> budget list \<Rightarrow> int
     \<Rightarrow> financialSummary" where
  "calculateFinancialSummary dl now incomes expenses budgets date =
     (let totalIncome = calculateMonthlyIncome dl incomes date;
          totalExpenses = calculateMonthlyExpenses dl expenses date;
          savings = totalIncome - totalExpenses;
          savingsRate = (if 0 < totalIncome
                         then map_option (\<lambda>q. q * 100) (jsDivide savings totalIncome)
                         else Some 0);
          monthlyBudget = foldl (\<lambda>total budget. total + b_budgetAmount budget) 0
                            (filter (\<lambda>budget. b_period budget = ''monthly'') budgets);
          monthlyBudgetUsed = totalExpenses;
          monthlyBudgetRemaining = monthlyBudget - monthlyBudgetUsed;
          upcomingBills = getUpcomingBills dl now expenses 7
      in \<lparr> fs_totalIncome = totalIncome, fs_totalExpenses = totalExpenses,
           fs_savings = savings, fs_savingsRate = savingsRate,
           fs_monthlyBudgetUsed = monthlyBudgetUsed,
           fs_monthlyBudgetRemaining = monthlyBudgetRemaining,
           fs_upcomingBills = upcomingBills \<rparr>)"

definition calculateFinancialSummaryWithAccount ::
  "datefns \<Rightarrow> int \<Rightarrow> income list \<Rightarrow> expense list \<Rightarrow> budget list \<Rightarrow> bankAccount option
     \<Rightarrow> int \<Rightarrow> financialSummary" where
  "calculateFinancialSummaryWithAccount dl now incomes expenses budgets selectedAccount date =
     (let totalIncome = (case selectedAccount of Some account \<Rightarrow> a_totalIncome account
                                               | None \<Rightarrow> 0);
          totalExpenses = calculateMonthlyExpenses dl expenses date;
          savings = totalIncome - totalExpenses;
          savingsRate = (if 0 < totalIncome
                         then map_option (\<lambda>q. q * 100) (jsDivide savings totalIncome)
                         else Some 0);
          monthlyBudget = foldl (\<lambda>total budget. total + b_budgetAmount budget) 0
                            (filter (\<lambda>budget. b_period budget = ''monthly'') budgets);
          monthlyBudgetUsed = totalExpenses;
          monthlyBudgetRemaining = monthlyBudget - monthlyBudgetUsed;
          upcomingBills = getUpcomingBills dl now expenses 7
      in \<lparr> fs_totalIncome = totalIncome, fs_totalExpenses = totalExpenses,
           fs_savings = savings, fs_savingsRate = savingsRate,
           fs_monthlyBudgetUsed = monthlyBudgetUsed,
           fs_monthlyBudgetRemaining = monthlyBudgetRemaining,
           fs_upcomingBills = upcomingBills \<rparr>)"

definition calculateBudgetProgress ::
  "datefns \<Rightarrow> expense list \<Rightarrow> budget \<Rightarrow> int \<Rightarrow> real option" where
  "calculateBudgetProgress dl expenses budget date =
     (let categoryExpenses = calculateCategoryExpenses dl expenses (b_category budget) date
      in if 0 < b_budgetAmount budget
         then map_option (\<lambda>q. q * 100) (jsDivide categoryExpenses (b_budgetAmount budget))
         else Some 0)"

subsection \<open>The state of \<^verbatim>\<open>DataProvider\<close>\<close>

text \<open>
  The calls to the storage module and to the console are effects; the state keeps them
  as two logs, in call order.
\<close>

datatype storage_call =
    SaveBankAccount bankAccount
  | DeleteBankAccountFromStorage string string
  | SaveIncome income
  | DeleteIncomeFromStorage string
  | SaveBudget budget
  | DeleteBudgetFromStorage string
  | SaveSavingsGoal savingsGoal
  | DeleteSavingsGoalFromStorage string string

datatype console_call =
    Warn string string
  | Error string

text \<open>
  \<open>user\<close> is \<^verbatim>\<open>user.uid\<close> of \<^verbatim>\<open>useAuth()\<close> (\<open>None\<close> when nobody is signed in); the
  other fields are the \<^verbatim>\<open>useState\<close> cells of the component.
\<close>

record state =
  user :: "string option"
  bankAccounts :: "bankAccount list"
  selectedBankAccount :: "bankAccount option"
  incomes :: "income list"
  expenses :: "expense list"
  budgets :: "budget list"
  savingsGoals :: "savingsGoal list"
  loading :: bool
  totalIncome :: real
  totalExpense :: real
  storage :: "storage_call list"
  console :: "console_call list"

text \<open>
  A handler is a closure of one render of the component. What it reads through a variable
  of that render (\<^verbatim>\<open>bankAccounts\<close>, \<^verbatim>\<open>expenses\<close>, \<^verbatim>\<open>savingsGoals\<close>, \<^verbatim>\<open>selectedBankAccount\<close>,
  \<^verbatim>\<open>user\<close>) is read from the state \<open>c\<close> of that render; what it writes goes to the current
  state \<open>s\<close>: \<^verbatim>\<open>setX(v)\<close> stores \<open>v\<close>, and \<^verbatim>\<open>setX(prev => f(prev))\<close> applies \<open>f\<close> to the
  current value. A handler called by the user on the latest render has \<open>c = s\<close>; a handler
  that calls another one passes its own \<open>c\<close> on. The handlers are modelled run to
  completion, one after the other.
\<close>

definition updateBankAccount :: "state \<Rightarrow> bankAccount \<Rightarrow> state \<Rightarrow> state" where
  "updateBankAccount c account s =
     s\<lparr> storage := storage s @ [SaveBankAccount account],
        bankAccounts := map (\<lambda>a. if a_id a = a_id account then account else a) (bankAccounts s),
        selectedBankAccount :=
          (if (case selectedBankAccount c of None \<Rightarrow> False
                                           | Some sel \<Rightarrow> a_id sel = a_id account)
           then Some account else selectedBankAccount s) \<rparr>"

definition deleteBankAccount :: "state \<Rightarrow> string \<Rightarrow> state \<Rightarrow> state" where
  "deleteBankAccount c accountId s =
     (case user c of
        None \<Rightarrow> s
      | Some uid \<Rightarrow>
          let s1 = s\<lparr> storage := storage s @ [DeleteBankAccountFromStorage accountId uid],
                      bankAccounts := filter (\<lambda>a. a_id a \<noteq> accountId) (bankAccounts s) \<rparr>
          in if (case selectedBankAccount c of None \<Rightarrow> False
                                              | Some sel \<Rightarrow> a_id sel = accountId)
             then let remaining = filter (\<lambda>a. a_id a \<noteq> accountId) (bankAccounts c)
                  in s1\<lparr> selectedBankAccount :=
                           (case remaining of [] \<Rightarrow> None | a # _ \<Rightarrow> Some a) \<rparr>
             else s1)"

definition setSelectedBankAccount :: "bankAccount option \<Rightarrow> state \<Rightarrow> state" where
  "setSelectedBankAccount account s = s\<lparr> selectedBankAccount := account \<rparr>"

definition updateAutoTrackedSavingsForAccount ::
  "state \<Rightarrow> string \<Rightarrow> real \<Rightarrow> real \<Rightarrow> state \<Rightarrow> state" where
  "updateAutoTrackedSavingsForAccount c bankAccountId totalIncome' totalExpense' s =
     (let monthlySavings = totalIncome' - totalExpense';
          updatedGoals = map (\<lambda>goal.
            if \<not> truthy (g_bankAccountId goal) \<or> g_bankAccountId goal = Some bankAccountId
            then goal\<lparr> g_autoTrackedAmount := Some (max 0 monthlySavings) \<rparr>
            else goal) (savingsGoals c)
      in s\<lparr> storage := storage s @ map SaveSavingsGoal
                (filter (\<lambda>goal. g_autoTrackedAmount goal \<noteq> None) updatedGoals),
            savingsGoals := updatedGoals \<rparr>)"

definition updateAllAutoTrackedSavings :: "state \<Rightarrow> state \<Rightarrow> state" where
  "updateAllAutoTrackedSavings c s =
     (case selectedBankAccount c of
        None \<Rightarrow> s
      | Some sel \<Rightarrow>
          let monthlySavings = a_totalIncome sel - a_totalExpense sel;
              updatedGoals = map (\<lambda>goal.
                goal\<lparr> g_autoTrackedAmount := Some (max 0 monthlySavings) \<rparr>) (savingsGoals c)
          in s\<lparr> storage := storage s @ map SaveSavingsGoal updatedGoals,
                savingsGoals := updatedGoals \<rparr>)"

definition recalculateAndUpdateTotalsWithArray ::
  "state \<Rightarrow> string \<Rightarrow> income list \<Rightarrow> expense list \<Rightarrow> state \<Rightarrow> state" where
  "recalculateAndUpdateTotalsWithArray c bankAccountId incomesArray expensesArray s =
     (let accountIncomes = filter (\<lambda>i. i_bankAccountId i = bankAccountId) incomesArray;
          accountExpenses = filter (\<lambda>e. e_bankAccountId e = bankAccountId) expensesArray;
          totalIncome' = foldl (\<lambda>sum i. sum + i_amount i) 0 accountIncomes;
          totalExpense' = foldl (\<lambda>sum e. sum + e_amount e) 0 accountExpenses;
          currentBalance = totalIncome' - totalExpense'
      in case find (\<lambda>a. a_id a = bankAccountId) (bankAccounts c) of
           None \<Rightarrow> s
         | Some account \<Rightarrow>
             let updatedAccount = account\<lparr> a_totalIncome := totalIncome',
                                          a_totalExpense := totalExpense',
                                          a_currentBalance := currentBalance \<rparr>
             in updateAutoTrackedSavingsForAccount c bankAccountId totalIncome' totalExpense'
                  (updateBankAccount c updatedAccount s))"

subsubsection \<open>Incomes and expenses\<close>

text \<open>\<open>incomeData\<close> is an \<^verbatim>\<open>Omit<Income, 'id' | 'userId'>\<close>: its two fields \<open>i_id\<close> and
  \<open>i_userId\<close> are overwritten, as the spread \<^verbatim>\<open>{...incomeData, id, userId}\<close> does.\<close>

definition addIncome :: "state \<Rightarrow> income \<Rightarrow> string \<Rightarrow> state \<Rightarrow> state" where
  "addIncome c incomeData newId s =
     (case user c of
        None \<Rightarrow> s
      | Some uid \<Rightarrow>
          let income = incomeData\<lparr> i_id := newId, i_userId := uid \<rparr>;
              s1 = s\<lparr> storage := storage s @ [SaveIncome income] \<rparr>;
              updated = incomes s1 @ [income]
          in (recalculateAndUpdateTotalsWithArray c (i_bankAccountId income) updated
                (expenses c) s1)\<lparr> incomes := updated \<rparr>)"

definition updateIncome :: "state \<Rightarrow> income \<Rightarrow> state \<Rightarrow> state" where
  "updateIncome c income s =
     (let s1 = s\<lparr> storage := storage s @ [SaveIncome income] \<rparr>;
          updated = map (\<lambda>i. if i_id i = i_id income then income else i) (incomes s1)
      in (recalculateAndUpdateTotalsWithArray c (i_bankAccountId income) updated
            (expenses c) s1)\<lparr> incomes := updated \<rparr>)"

definition deleteIncome :: "state \<Rightarrow> string \<Rightarrow> state \<Rightarrow> state" where
  "deleteIncome c incomeId s =
     (case find (\<lambda>i. i_id i = incomeId) (incomes c) of
        None \<Rightarrow> s
      | Some income \<Rightarrow>
          let s1 = s\<lparr> storage := storage s @ [DeleteIncomeFromStorage incomeId] \<rparr>;
              updated = filter (\<lambda>i. i_id i \<noteq> incomeId) (incomes s1)
          in (recalculateAndUpdateTotalsWithArray c (i_bankAccountId income) updated
                (expenses c) s1)\<lparr> incomes := updated \<rparr>)"

definition addExpense :: "state \<Rightarrow> expense \<Rightarrow> string \<Rightarrow> state \<Rightarrow> state" where
  "addExpense c expenseData newId s =
     (case user c of
        None \<Rightarrow> s
      | Some uid \<Rightarrow>
          let expense = expenseData\<lparr> e_id := newId, e_userId := uid \<rparr>;
              updated = expenses s @ [expense]
          in (recalculateAndUpdateTotalsWithArray c (e_bankAccountId expense) (incomes c)
                updated s)\<lparr> expenses := updated \<rparr>)"

definition updateExpense :: "state \<Rightarrow> expense \<Rightarrow> state \<Rightarrow> state" where
  "updateExpense c expense s =
     (let updated = map (\<lambda>e. if e_id e = e_id expense then expense else e) (expenses s)
      in (recalculateAndUpdateTotalsWithArray c (e_bankAccountId expense) (incomes c)
            updated s)\<lparr> expenses := updated \<rparr>)"

definition deleteExpense :: "state \<Rightarrow> string \<Rightarrow> state \<Rightarrow> state" where
  "deleteExpense c expenseId s =
     (let updated = filter (\<lambda>e. e_id e \<noteq> expenseId) (expenses s)
      in (case find (\<lambda>e. e_id e = expenseId) (expenses c) of
            None \<Rightarrow> s
          | Some expense \<Rightarrow>
              recalculateAndUpdateTotalsWithArray c (e_bankAccountId expense) (incomes c)
                updated s)\<lparr> expenses := updated \<rparr>)"

subsubsection \<open>Bank accounts\<close>

text \<open>
  \<open>accountData\<close> is an \<^verbatim>\<open>Omit<BankAccount, 'id' | 'userId' | 'createdAt' | 'totalIncome' |
  'totalExpense'>\<close>; \<open>newAccount\<close> is the object \<^verbatim>\<open>account\<close> that \<^verbatim>\<open>addBankAccount\<close> builds
  from it, and \<open>initialIncome\<close> the income it seeds (whose \<open>i_id\<close> and \<open>i_userId\<close>
  \<^verbatim>\<open>addIncome\<close> fills in). \<^verbatim>\<open>addBankAccount\<close> calls \<^verbatim>\<open>generateId()\<close> and
  \<^verbatim>\<open>new Date().toISOString()\<close> once for the account (\<open>accId\<close>, \<open>createdAt\<close>) and once for
  the income (\<open>incId\<close>, \<open>incDate\<close>).
\<close>

definition newAccount :: "bankAccount \<Rightarrow> string \<Rightarrow> string \<Rightarrow> string \<Rightarrow> bankAccount" where
  "newAccount accountData accId uid createdAt =
     accountData\<lparr> a_id := accId,
                  a_userId := uid,
                  a_bankId := a_bankName accountData,
                  a_totalIncome := a_startingBalance accountData,
                  a_totalExpense := 0,
                  a_createdAt := createdAt,
                  a_startingBalance := a_startingBalance accountData,
                  a_currentBalance := a_startingBalance accountData \<rparr>"

definition initialIncome :: "bankAccount \<Rightarrow> real \<Rightarrow> string \<Rightarrow> income" where
  "initialIncome account startingBalance incDate =
     \<lparr> i_id = [], i_userId = [],
       i_bankAccountId = a_id account,
       i_source = ''Initial Balance'',
       i_amount = startingBalance,
       i_frequency = ''one-time'',
       i_date = incDate,
       i_description = ''Initial balance at account creation'' \<rparr>"

text \<open>The state once \<^verbatim>\<open>setSelectedBankAccount(account)\<close> has run, before the seeding.\<close>

definition addBankAccount_created ::
  "state \<Rightarrow> bankAccount \<Rightarrow> string \<Rightarrow> string \<Rightarrow> state \<Rightarrow> state" where
  "addBankAccount_created c accountData accId createdAt s =
     (case user c of
        None \<Rightarrow> s
      | Some uid \<Rightarrow>
          let account = newAccount accountData accId uid createdAt
          in s\<lparr> storage := storage s @ [SaveBankAccount account],
                bankAccounts := bankAccounts s @ [account],
                selectedBankAccount := Some account \<rparr>)"

definition addBankAccount ::
  "state \<Rightarrow> bankAccount \<Rightarrow> string \<Rightarrow> string \<Rightarrow> string \<Rightarrow> string \<Rightarrow> state \<Rightarrow> state" where
  "addBankAccount c accountData accId createdAt incId incDate s =
     (case user c of
        None \<Rightarrow> s
      | Some uid \<Rightarrow>
          let account = newAccount accountData accId uid createdAt;
              s1 = addBankAccount_created c accountData accId createdAt s
          in if 0 < a_startingBalance accountData
             then addIncome c (initialIncome account (a_startingBalance accountData) incDate)
                    incId s1
             else s1)"

subsubsection \<open>Budgets\<close>

definition addBudget :: "state \<Rightarrow> budget \<Rightarrow> string \<Rightarrow> state \<Rightarrow> state" where
  "addBudget c budgetData newId s =
     (case user c of
        None \<Rightarrow> s
      | Some uid \<Rightarrow>
          let budget = budgetData\<lparr> b_id := newId, b_userId := uid \<rparr>
          in s\<lparr> storage := storage s @ [SaveBudget budget],
                budgets := budgets s @ [budget] \<rparr>)"

definition updateBudget :: "budget \<Rightarrow> state \<Rightarrow> state" where
  "updateBudget budget s =
     s\<lparr> storage := storage s @ [SaveBudget budget],
        budgets := map (\<lambda>b. if b_id b = b_id budget then budget else b) (budgets s) \<rparr>"

definition deleteBudget :: "string \<Rightarrow> state \<Rightarrow> state" where
  "deleteBudget budgetId s =
     s\<lparr> storage := storage s @ [DeleteBudgetFromStorage budgetId],
        budgets := filter (\<lambda>b. b_id b \<noteq> budgetId) (budgets s) \<rparr>"

subsubsection \<open>Savings goals\<close>

text \<open>
  \<open>sameTitle\<close> is the test of \<^verbatim>\<open>savingsGoals.find\<close> in \<^verbatim>\<open>addSavingsGoal\<close>. The method
  \<^verbatim>\<open>toLowerCase\<close> of strings is a parameter, so that what is proved of these functions
  holds for the lower-casing of the JavaScript engine, whatever it does to each title.
\<close>

definition sameTitle :: "(string \<Rightarrow> string) \<Rightarrow> string \<Rightarrow> string \<Rightarrow> savingsGoal \<Rightarrow> bool" where
  "sameTitle toLowerCase title uid goal =
     (toLowerCase (g_title goal) = toLowerCase title \<and> g_userId goal = uid)"

definition addSavingsGoal ::
  "(string \<Rightarrow> string) \<Rightarrow> state \<Rightarrow> savingsGoal \<Rightarrow> string \<Rightarrow> state \<Rightarrow> state" where
  "addSavingsGoal toLowerCase c goalData newId s =
     (case user c of
        None \<Rightarrow> s
      | Some uid \<Rightarrow>
          (case find (sameTitle toLowerCase (g_title goalData) uid) (savingsGoals c) of
             Some existingGoal \<Rightarrow>
               s\<lparr> console := console s @
                     [Warn ''A goal with this title already exists:'' (g_title goalData)] \<rparr>
           | None \<Rightarrow>
               let monthlySavings =
                     (case selectedBankAccount c of
                        Some sel \<Rightarrow> a_totalIncome sel - a_totalExpense sel
                      | None \<Rightarrow> 0);
                   goal = goalData\<lparr> g_id := newId, g_userId := uid,
                                    g_autoTrackedAmount := Some (max 0 monthlySavings) \<rparr>
               in s\<lparr> storage := storage s @ [SaveSavingsGoal goal],
                     savingsGoals := savingsGoals s @ [goal] \<rparr>))"

definition updateSavingsGoal :: "savingsGoal \<Rightarrow> state \<Rightarrow> state" where
  "updateSavingsGoal goal s =
     s\<lparr> storage := storage s @ [SaveSavingsGoal goal],
        savingsGoals := map (\<lambda>g. if g_id g = g_id goal then goal else g) (savingsGoals s) \<rparr>"

definition deleteSavingsGoal :: "state \<Rightarrow> string \<Rightarrow> state \<Rightarrow> state" where
  "deleteSavingsGoal c goalId s =
     (case user c of
        None \<Rightarrow> s
      | Some uid \<Rightarrow>
          s\<lparr> storage := storage s @ [DeleteSavingsGoalFromStorage goalId uid],
             savingsGoals := filter (\<lambda>g. g_id g \<noteq> goalId) (savingsGoals s) \<rparr>)"

text \<open>
  \<^verbatim>\<open>removeDuplicateGoals\<close>: the loop over \<^verbatim>\<open>goals\<close>, with the set \<^verbatim>\<open>seen\<close> of keys, the
  array \<^verbatim>\<open>uniqueGoals\<close> and the state (for the two logs) as accumulators.
\<close>

definition goalKey :: "(string \<Rightarrow> string) \<Rightarrow> savingsGoal \<Rightarrow> string" where
  "goalKey toLowerCase goal = g_userId goal @ ''-'' @ toLowerCase (g_title goal)"

fun removeDuplicateGoals_loop ::
  "(string \<Rightarrow> string) \<Rightarrow> state \<Rightarrow> savingsGoal list \<Rightarrow> string set \<Rightarrow> savingsGoal list
     \<Rightarrow> state \<Rightarrow> savingsGoal list \<times> state" where
  "removeDuplicateGoals_loop toLowerCase c [] seen uniqueGoals s = (uniqueGoals, s)"
| "removeDuplicateGoals_loop toLowerCase c (goal # goals) seen uniqueGoals s =
     (if goalKey toLowerCase goal \<notin> seen
      then removeDuplicateGoals_loop toLowerCase c goals
             (insert (goalKey toLowerCase goal) seen) (uniqueGoals @ [goal]) s
      else removeDuplicateGoals_loop toLowerCase c goals seen uniqueGoals
             (s\<lparr> console := console s @ [Warn ''Removing duplicate goal:'' (g_title goal)],
                 storage := storage s @
                   (case user c of
                      None \<Rightarrow> []
                    | Some uid \<Rightarrow> [DeleteSavingsGoalFromStorage (g_id goal) uid]) \<rparr>))"

definition removeDuplicateGoals ::
  "(string \<Rightarrow> string) \<Rightarrow> state \<Rightarrow> savingsGoal list \<Rightarrow> state
     \<Rightarrow> savingsGoal list \<times> state" where
  "removeDuplicateGoals toLowerCase c goals s =
     removeDuplicateGoals_loop toLowerCase c goals {} [] s"

subsubsection \<open>Loading, and the effects of the component\<close>

text \<open>
  What the storage module returns is an input: \<open>accounts\<close> is the result of
  \<^verbatim>\<open>getBankAccounts\<close> (\<open>None\<close> when the promise rejects and the \<^verbatim>\<open>catch\<close> logs the error),
  \<open>loadedIncomes\<close>, \<open>loadedBudgets\<close> and \<open>loadedGoals\<close> the results of \<^verbatim>\<open>getIncomes\<close>,
  \<^verbatim>\<open>getBudgets\<close> and \<^verbatim>\<open>getSavingsGoals\<close>.
\<close>

definition refreshData ::
  "(string \<Rightarrow> string) \<Rightarrow> state \<Rightarrow> bankAccount list option \<Rightarrow> income list \<Rightarrow> budget list
     \<Rightarrow> savingsGoal list \<Rightarrow> state \<Rightarrow> state" where
  "refreshData toLowerCase c accounts loadedIncomes loadedBudgets loadedGoals s =
     (case user c of
        None \<Rightarrow> s
      | Some uid \<Rightarrow>
          (case accounts of
             None \<Rightarrow> s\<lparr> console := console s @ [Error ''Error loading bank accounts:''] \<rparr>
           | Some accs \<Rightarrow>
               let s1 = s\<lparr> bankAccounts := accs \<rparr>;
                   s2 = (if accs \<noteq> [] \<and> selectedBankAccount c = None
                         then s1\<lparr> selectedBankAccount := Some (hd accs) \<rparr> else s1);
                   s3 = s2\<lparr> incomes := loadedIncomes, budgets := loadedBudgets \<rparr>
               in case removeDuplicateGoals toLowerCase c loadedGoals s3 of
                    (deduplicatedGoals, s4) \<Rightarrow> s4\<lparr> savingsGoals := deduplicatedGoals \<rparr>))"

text \<open>The effect that runs when \<^verbatim>\<open>selectedBankAccount\<close> has changed.\<close>

definition selectedAccountEffect ::
  "(string \<Rightarrow> string) \<Rightarrow> state \<Rightarrow> income list \<Rightarrow> budget list \<Rightarrow> savingsGoal list
     \<Rightarrow> state \<Rightarrow> state" where
  "selectedAccountEffect toLowerCase c loadedIncomes loadedBudgets loadedGoals s =
     (case selectedBankAccount c of
        None \<Rightarrow> s
      | Some sel \<Rightarrow>
          let s1 = (case user c of
                      None \<Rightarrow> s
                    | Some uid \<Rightarrow>
                        (case removeDuplicateGoals toLowerCase c loadedGoals
                                (s\<lparr> incomes := loadedIncomes, budgets := loadedBudgets \<rparr>) of
                           (deduplicatedGoals, s') \<Rightarrow>
                              s'\<lparr> savingsGoals := deduplicatedGoals \<rparr>))
          in updateAllAutoTrackedSavings c s1)"

text \<open>
  The two \<^verbatim>\<open>onSnapshot\<close> listeners, which exist while a user is signed in and an account
  is selected. \<open>expenseList\<close> and \<open>incomeList\<close> are the documents of the snapshot as the
  listener decodes them; \<^verbatim>\<open>Number(item.amount) || 0\<close> is \<open>numberOr0\<close>.
\<close>

definition numberOr0 :: "real \<Rightarrow> real" where
  "numberOr0 x = (if x = 0 then 0 else x)"

definition onExpensesSnapshot :: "expense list \<Rightarrow> state \<Rightarrow> state" where
  "onExpensesSnapshot expenseList s =
     (let total = foldl (\<lambda>sum item. sum + numberOr0 (e_amount item)) 0 expenseList
      in s\<lparr> expenses := expenseList, totalExpense := total, loading := False \<rparr>)"

definition onIncomesSnapshot :: "income list \<Rightarrow> state \<Rightarrow> state" where
  "onIncomesSnapshot incomeList s =
     (let total = foldl (\<lambda>sum item. sum + numberOr0 (i_amount item)) 0 incomeList
      in s\<lparr> incomes := incomeList, totalIncome := total, loading := False \<rparr>)"

subsection \<open>The public operations as events\<close>

text \<open>
  The operations that \<^verbatim>\<open>DataContext.Provider\<close> publishes, with the values each one takes
  from its caller and from its environment, and the three reactions of the component
  (the effect on a change of the selected account and the two snapshot listeners).
\<close>

datatype event =
    AddBankAccount bankAccount string string string string
  | UpdateBankAccount bankAccount
  | DeleteBankAccount string
  | SetSelectedBankAccount "bankAccount option"
  | AddIncome income string
  | UpdateIncome income
  | DeleteIncome string
  | AddExpense expense string
  | UpdateExpense expense
  | DeleteExpense string
  | AddBudget budget string
  | UpdateBudget budget
  | DeleteBudget string
  | AddSavingsGoal savingsGoal string
  | UpdateSavingsGoal savingsGoal
  | DeleteSavingsGoal string
  | RefreshData "bankAccount list option" "income list" "budget list" "savingsGoal list"
  | UpdateAutoTrackedSavingsForAccount string real real
  | UpdateAllAutoTrackedSavings
  | SelectedAccountEffect "income list" "budget list" "savingsGoal list"
  | ExpensesSnapshot "expense list"
  | IncomesSnapshot "income list"

text \<open>One event, handled by the closures of the latest render.\<close>

fun step :: "(string \<Rightarrow> string) \<Rightarrow> state \<Rightarrow> event \<Rightarrow> state" where
  "step toLowerCase s (AddBankAccount accountData accId createdAt incId incDate) =
     addBankAccount s accountData accId createdAt incId incDate s"
| "step toLowerCase s (UpdateBankAccount account) = updateBankAccount s account s"
| "step toLowerCase s (DeleteBankAccount accountId) = deleteBankAccount s accountId s"
| "step toLowerCase s (SetSelectedBankAccount account) = setSelectedBankAccount account s"
| "step toLowerCase s (AddIncome incomeData newId) = addIncome s incomeData newId s"
| "step toLowerCase s (UpdateIncome income) = updateIncome s income s"
| "step toLowerCase s (DeleteIncome incomeId) = deleteIncome s incomeId s"
| "step toLowerCase s (AddExpense expenseData newId) = addExpense s expenseData newId s"
| "step toLowerCase s (UpdateExpense expense) = updateExpense s expense s"
| "step toLowerCase s (DeleteExpense expenseId) = deleteExpense s expenseId s"
| "step toLowerCase s (AddBudget budgetData newId) = addBudget s budgetData newId s"
| "step toLowerCase s (UpdateBudget budget) = updateBudget budget s"
| "step toLowerCase s (DeleteBudget budgetId) = deleteBudget budgetId s"
| "step toLowerCase s (AddSavingsGoal goalData newId) =
     addSavingsGoal toLowerCase s goalData newId s"
| "step toLowerCase s (UpdateSavingsGoal goal) = updateSavingsGoal goal s"
| "step toLowerCase s (DeleteSavingsGoal goalId) = deleteSavingsGoal s goalId s"
| "step toLowerCase s (RefreshData accounts loadedIncomes loadedBudgets loadedGoals) =
     refreshData toLowerCase s accounts loadedIncomes loadedBudgets loadedGoals s"
| "step toLowerCase s
       (UpdateAutoTrackedSavingsForAccount bankAccountId totalIncome' totalExpense') =
     updateAutoTrackedSavingsForAccount s bankAccountId totalIncome' totalExpense' s"
| "step toLowerCase s UpdateAllAutoTrackedSavings = updateAllAutoTrackedSavings s s"
| "step toLowerCase s (SelectedAccountEffect loadedIncomes loadedBudgets loadedGoals) =
     selectedAccountEffect toLowerCase s loadedIncomes loadedBudgets loadedGoals s"
| "step toLowerCase s (ExpensesSnapshot expenseList) = onExpensesSnapshot expenseList s"
| "step toLowerCase s (IncomesSnapshot incomeList) = onIncomesSnapshot incomeList s"

text \<open>The state of the first render, for the signed-in user \<open>uid\<close>.\<close>

definition initialState :: "string option \<Rightarrow> state" where
  "initialState uid =
     \<lparr> user = uid, bankAccounts = [], selectedBankAccount = None, incomes = [],
       expenses = [], budgets = [], savingsGoals = [], loading = True,
       totalIncome = 0, totalExpense = 0, storage = [], console = [] \<rparr>"

text \<open>No goal of the list has a negative \<^verbatim>\<open>autoTrackedAmount\<close>.\<close>

definition nonNegativeGoals :: "savingsGoal list \<Rightarrow> bool" where
  "nonNegativeGoals goals =
     list_all (\<lambda>goal. case g_autoTrackedAmount goal of None \<Rightarrow> True | Some v \<Rightarrow> 0 \<le> v) goals"

text \<open>The goals that an event brings in from its caller or from storage, as they are.\<close>

fun suppliedGoals :: "event \<Rightarrow> savingsGoal list" where
  "suppliedGoals (UpdateSavingsGoal goal) = [goal]"
| "suppliedGoals (RefreshData accounts loadedIncomes loadedBudgets loadedGoals) = loadedGoals"
| "suppliedGoals (SelectedAccountEffect loadedIncomes loadedBudgets loadedGoals) = loadedGoals"
| "suppliedGoals _ = []"

subsection \<open>Example data\<close>

text \<open>
  For evaluating at concrete titles: what \<^verbatim>\<open>toLowerCase\<close> does to a string of ASCII
  characters (the letters \<open>A\<close> to \<open>Z\<close> become \<open>a\<close> to \<open>z\<close>). It stands for the
  method on the ASCII titles of the examples only.
\<close>

definition lowerChar :: "char \<Rightarrow> char" where
  "lowerChar ch = (let n = (of_char ch :: nat) in
     if 65 \<le> n \<and> n \<le> 90 then char_of (n + 32) else ch)"

definition toLowerCase_ascii :: "string \<Rightarrow> string" where
  "toLowerCase_ascii str = map lowerChar str"

text \<open>Noon (UTC) of 10 January 2024 and of 10 March 2024.\<close>

definition ex_now :: int where
  "ex_now = 1704888000000"

definition ex_later :: int where
  "ex_later = 1710072000000"

definition ex_bill :: expense where
  "ex_bill = \<lparr> e_id = ''e1'', e_userId = ''u1'', e_bankAccountId = ''acc1'',
               e_category = ''rent'', e_amount = 6000, e_date = ''2023-12-20'',
               e_description = ''rent'', e_isRecurring = True, e_frequency = ''monthly'',
               e_nextDueDate = Some ''2024-01-20'' \<rparr>"

definition ex_food :: expense where
  "ex_food = \<lparr> e_id = ''e2'', e_userId = ''u1'', e_bankAccountId = ''acc1'',
               e_category = ''food'', e_amount = 50, e_date = ''2024-01-15'',
               e_description = ''lunch'', e_isRecurring = False, e_frequency = ''none'',
               e_nextDueDate = None \<rparr>"

definition ex_salary :: income where
  "ex_salary = \<lparr> i_id = ''i1'', i_userId = ''u1'', i_bankAccountId = ''acc1'',
                 i_source = ''Salary'', i_amount = 300, i_frequency = ''monthly'',
                 i_date = ''2024-01-01'', i_description = ''salary'' \<rparr>"

definition ex_account :: bankAccount where
  "ex_account = \<lparr> a_id = ''acc1'', a_userId = ''u1'', a_bankId = ''hdfc'',
                  a_bankName = ''hdfc'', a_nickname = None, a_totalIncome = 5000,
                  a_totalExpense = 0, a_createdAt = ''2024-01-01T00:00:00.000Z'',
                  a_startingBalance = 5000, a_currentBalance = 5000 \<rparr>"

definition ex_accountData :: bankAccount where
  "ex_accountData = \<lparr> a_id = [], a_userId = [], a_bankId = [],
                      a_bankName = ''sbi'', a_nickname = Some ''Savings'', a_totalIncome = 0,
                      a_totalExpense = 0, a_createdAt = [],
                      a_startingBalance = 1000, a_currentBalance = 0 \<rparr>"

definition ex_budget :: budget where
  "ex_budget = \<lparr> b_id = ''b1'', b_userId = ''u1'', b_category = ''food'',
                 b_budgetAmount = 1000, b_period = ''monthly'', b_alertThreshold = 80 \<rparr>"

definition ex_budget_negative :: budget where
  "ex_budget_negative = \<lparr> b_id = ''b2'', b_userId = ''u1'', b_category = ''food'',
                          b_budgetAmount = - 100, b_period = ''monthly'',
                          b_alertThreshold = 80 \<rparr>"

definition ex_goal :: savingsGoal where
  "ex_goal = \<lparr> g_id = ''g1'', g_userId = ''u1'', g_title = ''Vacation'',
               g_bankAccountId = None, g_autoTrackedAmount = Some 10 \<rparr>"

definition ex_goal_other :: savingsGoal where
  "ex_goal_other = \<lparr> g_id = ''g2'', g_userId = ''u1'', g_title = ''Car'',
                     g_bankAccountId = Some ''acc2'', g_autoTrackedAmount = Some 7 \<rparr>"

definition ex_state :: state where
  "ex_state = \<lparr> user = Some ''u1'', bankAccounts = [ex_account],
                selectedBankAccount = Some ex_account, incomes = [ex_salary],
                expenses = [], budgets = [ex_budget], savingsGoals = [ex_goal, ex_goal_other],
                loading = False, totalIncome = 300, totalExpense = 0,
                storage = [], console = [] \<rparr>"

definition ex_goal_negative :: savingsGoal where
  "ex_goal_negative = \<lparr> g_id = ''g1'', g_userId = ''u1'', g_title = ''Vacation'',
                        g_bankAccountId = None, g_autoTrackedAmount = Some (- 5) \<rparr>"

text \<open>The user adds the bill \<open>ex_bill\<close> locally; then a snapshot of the expenses arrives
  that holds \<open>ex_food\<close> only.\<close>

definition ex_optimistic :: state where
  "ex_optimistic = addExpense ex_state ex_bill ''e1'' ex_state"

definition ex_after_snapshot :: state where
  "ex_after_snapshot = onExpensesSnapshot [ex_food] ex_optimistic"

text \<open>A goal of the account \<open>acc2\<close>, as \<^verbatim>\<open>addSavingsGoal\<close> receives it, and the state of
  the first render of a signed-in user.\<close>

definition ex_goalData :: savingsGoal where
  "ex_goalData = \<lparr> g_id = [], g_userId = [], g_title = ''House'',
                   g_bankAccountId = Some ''acc2'', g_autoTrackedAmount = None \<rparr>"

definition ex_first :: state where
  "ex_first = initialState (Some ''u1'')"

text \<open>The totals of \<open>acc1\<close>, the selected account, recomputed for the arrays \<open>[ex_salary]\<close>
  and \<open>[ex_food]\<close>.\<close>

definition ex_recomputed :: state where
  "ex_recomputed =
     recalculateAndUpdateTotalsWithArray ex_state ''acc1'' [ex_salary] [ex_food] ex_state"

text \<open>Two handlers of one render (that of \<open>ex_state\<close>), one after the other: a goal of
  \<open>acc2\<close> is added, then an expense of \<open>acc1\<close>.\<close>

definition ex_goal_added :: state where
  "ex_goal_added = addSavingsGoal toLowerCase_ascii ex_state ex_goalData ''g3'' ex_state"

definition ex_then_expense :: state where
  "ex_then_expense = addExpense ex_state ex_food ''e2'' ex_goal_added"

section \<open>Properties\<close>

subsection \<open>The aggregation functions\<close>

text \<open>
  Claim C4. For a selected account, \<^verbatim>\<open>calculateFinancialSummaryWithAccount\<close> returns the
  account's own \<^verbatim>\<open>totalIncome\<close> as total income (the incomes of the month play no part),
  \<^verbatim>\<open>calculateMonthlyExpenses\<close> of the expenses as total expenses, their difference as
  savings, and as savings rate \<open>savings / totalIncome * 100\<close> when the income is positive
  and \<open>0\<close> when it is \<open>0\<close>. An account with a total income of 5000 and monthly expenses
  of 6000 has savings of \<open>-1000\<close> and a savings rate of \<open>-20\<close>.
\<close>

theorem C4_financialSummary:
  fixes account :: bankAccount and dl now incomes' expenses' budgets' date
  defines "r \<equiv> calculateFinancialSummaryWithAccount dl now incomes' expenses' budgets'
                 (Some account) date"
  shows "fs_totalIncome r = a_totalIncome account
       \<and> fs_totalExpenses r = calculateMonthlyExpenses dl expenses' date
       \<and> fs_savings r = fs_totalIncome r - fs_totalExpenses r
       \<and> (0 < a_totalIncome account \<longrightarrow>
            fs_savingsRate r = Some (fs_savings r / fs_totalIncome r * 100))
       \<and> (a_totalIncome account = 0 \<longrightarrow> fs_savingsRate r = Some 0)
       \<and> (a_totalIncome account = 5000 \<and> calculateMonthlyExpenses dl expenses' date = 6000
            \<longrightarrow> fs_savings r = - 1000 \<and> fs_savingsRate r = Some (- 20))"
  by (simp add: r_def calculateFinancialSummaryWithAccount_def jsDivide_def Let_def)

theorem C4_financialSummary_witness:
  "a_totalIncome ex_account = 5000
   \<and> calculateMonthlyExpenses utc [ex_bill] ex_now = 6000
   \<and> fs_totalIncome (calculateFinancialSummaryWithAccount utc ex_now [ex_salary] [ex_bill]
        [ex_budget] (Some ex_account) ex_now) = 5000
   \<and> fs_savings (calculateFinancialSummaryWithAccount utc ex_now [ex_salary] [ex_bill]
        [ex_budget] (Some ex_account) ex_now) = - 1000
   \<and> fs_savingsRate (calculateFinancialSummaryWithAccount utc ex_now [ex_salary] [ex_bill]
        [ex_budget] (Some ex_account) ex_now) = Some (- 20)
   \<and> fs_savingsRate (calculateFinancialSummaryWithAccount utc ex_now [ex_salary] [ex_bill]
        [ex_budget] (Some (ex_account\<lparr>a_totalIncome := 0\<rparr>)) ex_now) = Some 0"
proof -
  have a: "a_totalIncome ex_account = 5000" by (simp add: ex_account_def)
  have b: "calculateMonthlyExpenses utc [ex_bill] ex_now = 6000" by code_simp
  have z: "a_totalIncome (ex_account\<lparr>a_totalIncome := 0\<rparr>) = 0" by simp
  show ?thesis
    using a b z
      C4_financialSummary [where account = ex_account and dl = utc and expenses' = "[ex_bill]"
         and date = ex_now and now = ex_now and incomes' = "[ex_salary]"
         and budgets' = "[ex_budget]"]
      C4_financialSummary [where account = "ex_account\<lparr>a_totalIncome := 0\<rparr>" and dl = utc
         and expenses' = "[ex_bill]" and date = ex_now and now = ex_now
         and incomes' = "[ex_salary]" and budgets' = "[ex_budget]"]
    by simp
qed

text \<open>
  Claim C5, as stated, fails: for a budget whose \<^verbatim>\<open>budgetAmount\<close> is negative the function
  does not return the quotient, it returns \<open>0\<close>. With 50 spent on food in January 2024
  and a budget amount of \<open>-100\<close> the quotient times 100 is \<open>-50\<close>, the result is \<open>0\<close>.
\<close>

theorem C5_budgetProgress_counterexample:
  "calculateBudgetProgress utc [ex_food] ex_budget_negative ex_now = Some 0
   \<and> map_option (\<lambda>q. q * 100)
        (jsDivide (calculateCategoryExpenses utc [ex_food] (b_category ex_budget_negative) ex_now)
           (b_budgetAmount ex_budget_negative)) = Some (- 50)"
  by code_simp

text \<open>
  Claim C5, amended. \<^verbatim>\<open>calculateBudgetProgress\<close> returns
  \<open>calculateCategoryExpenses / budgetAmount * 100\<close> when \<^verbatim>\<open>budgetAmount\<close> is positive, and
  \<open>0\<close> whenever \<^verbatim>\<open>budgetAmount\<close> is zero or negative; it never divides by zero, so its
  result is always a finite number.
\<close>

theorem C5_budgetProgress:
  "(0 < b_budgetAmount budget \<longrightarrow>
      calculateBudgetProgress dl expenses' budget date =
        Some (calculateCategoryExpenses dl expenses' (b_category budget) date
                / b_budgetAmount budget * 100))
   \<and> (b_budgetAmount budget \<le> 0 \<longrightarrow> calculateBudgetProgress dl expenses' budget date = Some 0)
   \<and> calculateBudgetProgress dl expenses' budget date \<noteq> None"
  by (simp add: calculateBudgetProgress_def jsDivide_def Let_def)

theorem C5_budgetProgress_witness:
  "0 < b_budgetAmount ex_budget
   \<and> calculateBudgetProgress utc [ex_food, ex_bill] ex_budget ex_now = Some 5
   \<and> b_budgetAmount (ex_budget\<lparr>b_budgetAmount := 0\<rparr>) \<le> 0
   \<and> calculateBudgetProgress utc [ex_food, ex_bill] (ex_budget\<lparr>b_budgetAmount := 0\<rparr>) ex_now
       = Some 0"
proof -
  have a: "0 < b_budgetAmount ex_budget" "b_budgetAmount ex_budget = 1000"
    "b_category ex_budget = ''food''"
    by (simp_all add: ex_budget_def)
  have b: "calculateCategoryExpenses utc [ex_food, ex_bill] ''food'' ex_now = 50"
    by code_simp
  show ?thesis
    using a b
      C5_budgetProgress [where budget = ex_budget and dl = utc
         and expenses' = "[ex_food, ex_bill]" and date = ex_now]
      C5_budgetProgress [where budget = "ex_budget\<lparr>b_budgetAmount := 0\<rparr>" and dl = utc
         and expenses' = "[ex_food, ex_bill]" and date = ex_now]
    by simp
qed

text \<open>
  Claim C6 (the code departs from it). \<^verbatim>\<open>getUpcomingBills\<close> takes \<^verbatim>\<open>daysAhead\<close> and never
  reads it: the window ends one month after \<open>now\<close>. At noon of 10 January 2024, asked
  for the bills of the next 7 days, it returns a bill that is due on 20 January, which is
  later than \<open>now + 7\<close> days.
\<close>

theorem C6_getUpcomingBills_ignores_daysAhead:
  "getUpcomingBills utc ex_now [ex_food, ex_bill] 7 = [ex_bill]
   \<and> dueDate utc ex_bill = Some 1705708800000
   \<and> ex_now + 7 * msPerDay = 1705492800000
   \<and> date_le (dueDate utc ex_bill) (ex_now + 7 * msPerDay) = False"
  by code_simp

text \<open>
  Claim C9, as stated, fails: the field \<^verbatim>\<open>upcomingBills\<close> of the financial summary depends
  on the time of the call. The same arguments give one upcoming bill when the call is
  made on 10 January 2024 and none when it is made on 10 March 2024.
\<close>

theorem C9_deterministic_counterexample:
  "fs_upcomingBills (calculateFinancialSummaryWithAccount utc ex_now [ex_salary] [ex_bill]
      [ex_budget] (Some ex_account) ex_now) = [ex_bill]
   \<and> fs_upcomingBills (calculateFinancialSummaryWithAccount utc ex_later [ex_salary] [ex_bill]
      [ex_budget] (Some ex_account) ex_now) = []
   \<and> fs_upcomingBills (calculateFinancialSummary utc ex_now [ex_salary] [ex_bill]
      [ex_budget] ex_now) = [ex_bill]
   \<and> fs_upcomingBills (calculateFinancialSummary utc ex_later [ex_salary] [ex_bill]
      [ex_budget] ex_now) = []"
  by code_simp

text \<open>
  Claim C9, amended. Every field of the financial summary other than \<^verbatim>\<open>upcomingBills\<close> is
  determined by the arguments (incomes, expenses, budgets, selected account, reference
  date), whenever the call is made; \<^verbatim>\<open>upcomingBills\<close> is \<^verbatim>\<open>getUpcomingBills\<close> of the expenses
  at the time of the call. \<^verbatim>\<open>calculateBudgetProgress\<close> does not read the clock: it is a
  function of the expenses, the budget and the reference date alone, namely of the
  budget's amount and the expenses of its category.
\<close>

theorem C9_deterministic:
  "(calculateFinancialSummaryWithAccount dl now incomes' expenses' budgets' selectedAccount date)
       \<lparr> fs_upcomingBills := [] \<rparr>
     = (calculateFinancialSummaryWithAccount dl now' incomes' expenses' budgets' selectedAccount
          date) \<lparr> fs_upcomingBills := [] \<rparr>
   \<and> fs_upcomingBills (calculateFinancialSummaryWithAccount dl now incomes' expenses' budgets'
        selectedAccount date) = getUpcomingBills dl now expenses' 7
   \<and> (calculateFinancialSummary dl now incomes' expenses' budgets' date)
       \<lparr> fs_upcomingBills := [] \<rparr>
     = (calculateFinancialSummary dl now' incomes' expenses' budgets' date)
       \<lparr> fs_upcomingBills := [] \<rparr>
   \<and> fs_upcomingBills (calculateFinancialSummary dl now incomes' expenses' budgets' date)
       = getUpcomingBills dl now expenses' 7
   \<and> calculateBudgetProgress dl expenses' budget date =
       (if 0 < b_budgetAmount budget
        then Some (calculateCategoryExpenses dl expenses' (b_category budget) date
                     / b_budgetAmount budget * 100)
        else Some 0)"
  by (simp add: calculateFinancialSummaryWithAccount_def calculateFinancialSummary_def
      calculateBudgetProgress_def jsDivide_def Let_def)

theorem C9_deterministic_witness:
  "(calculateFinancialSummaryWithAccount utc ex_now [ex_salary] [ex_bill] [ex_budget]
       (Some ex_account) ex_now) \<lparr> fs_upcomingBills := [] \<rparr>
     = (calculateFinancialSummaryWithAccount utc ex_later [ex_salary] [ex_bill] [ex_budget]
          (Some ex_account) ex_now) \<lparr> fs_upcomingBills := [] \<rparr>
   \<and> calculateBudgetProgress utc [ex_food, ex_bill] ex_budget ex_now = Some 5"
proof -
  have a: "0 < b_budgetAmount ex_budget" "b_budgetAmount ex_budget = 1000"
    "b_category ex_budget = ''food''"
    by (simp_all add: ex_budget_def)
  have b: "calculateCategoryExpenses utc [ex_food, ex_bill] ''food'' ex_now = 50"
    by code_simp
  show ?thesis
    using a b
      C9_deterministic [where dl = utc and now = ex_now and now' = ex_later
         and incomes' = "[ex_salary]" and expenses' = "[ex_food, ex_bill]"
         and budgets' = "[ex_budget]" and selectedAccount = "Some ex_account"
         and date = ex_now and budget = ex_budget]
      C9_deterministic [where dl = utc and now = ex_now and now' = ex_later
         and incomes' = "[ex_salary]" and expenses' = "[ex_bill]"
         and budgets' = "[ex_budget]" and selectedAccount = "Some ex_account"
         and date = ex_now and budget = ex_budget]
    by simp
qed

subsection \<open>The coordinator: auxiliary facts\<close>

lemma foldl_add_sum_list:
  "foldl (\<lambda>sum x. sum + f x) a xs = a + sum_list (map f xs)"
  for a :: real
  by (induction xs arbitrary: a) simp_all

lemma find_in_set:
  "x \<in> set xs \<Longrightarrow> P x \<Longrightarrow> \<exists>y. find P xs = Some y \<and> P y \<and> y \<in> set xs"
  by (induction xs) auto

lemma find_None_filter: "find P xs = None \<longleftrightarrow> filter P xs = []"
  by (induction xs) auto

lemma savingsGoals_updateBankAccount:
  "savingsGoals (updateBankAccount c account s) = savingsGoals s"
  by (simp add: updateBankAccount_def)

lemma bankAccounts_updateAuto:
  "bankAccounts (updateAutoTrackedSavingsForAccount c A ti te s) = bankAccounts s"
  by (simp add: updateAutoTrackedSavingsForAccount_def Let_def)

lemma savingsGoals_updateAuto:
  "savingsGoals (updateAutoTrackedSavingsForAccount c A ti te s) =
     map (\<lambda>goal. if \<not> truthy (g_bankAccountId goal) \<or> g_bankAccountId goal = Some A
                  then goal\<lparr> g_autoTrackedAmount := Some (max 0 (ti - te)) \<rparr> else goal)
       (savingsGoals c)"
  by (simp add: updateAutoTrackedSavingsForAccount_def Let_def)

lemma savingsGoals_recalculate:
  "savingsGoals (recalculateAndUpdateTotalsWithArray c A incomesArray expensesArray s) =
     (case find (\<lambda>a. a_id a = A) (bankAccounts c) of
        None \<Rightarrow> savingsGoals s
      | Some account \<Rightarrow>
          savingsGoals (updateAutoTrackedSavingsForAccount c A
            (foldl (\<lambda>sum i. sum + i_amount i) 0 (filter (\<lambda>i. i_bankAccountId i = A) incomesArray))
            (foldl (\<lambda>sum e. sum + e_amount e) 0 (filter (\<lambda>e. e_bankAccountId e = A) expensesArray))
            s))"
  by (simp add: recalculateAndUpdateTotalsWithArray_def Let_def savingsGoals_updateAuto
      split: option.split)

lemma savingsGoals_updateAll:
  "savingsGoals (updateAllAutoTrackedSavings c s) =
     (case selectedBankAccount c of
        None \<Rightarrow> savingsGoals s
      | Some sel \<Rightarrow>
          map (\<lambda>goal. goal\<lparr> g_autoTrackedAmount :=
                              Some (max 0 (a_totalIncome sel - a_totalExpense sel)) \<rparr>)
            (savingsGoals c))"
  by (simp add: updateAllAutoTrackedSavings_def Let_def split: option.split)

lemma savingsGoals_selectedAccountEffect:
  "savingsGoals (selectedAccountEffect toLowerCase c loadedIncomes loadedBudgets loadedGoals s) =
     (case selectedBankAccount c of
        None \<Rightarrow> savingsGoals s
      | Some sel \<Rightarrow>
          map (\<lambda>goal. goal\<lparr> g_autoTrackedAmount :=
                              Some (max 0 (a_totalIncome sel - a_totalExpense sel)) \<rparr>)
            (savingsGoals c))"
  by (simp add: selectedAccountEffect_def savingsGoals_updateAll Let_def split: option.split)

lemma selectedBankAccount_recalculate:
  assumes "find (\<lambda>a. a_id a = A) (bankAccounts c) = Some account"
    and "selectedBankAccount c = Some sel" and "a_id sel = A"
  shows "selectedBankAccount
           (recalculateAndUpdateTotalsWithArray c A incomesArray expensesArray s) =
         Some (account\<lparr>
           a_totalIncome :=
             (\<Sum>i\<leftarrow>filter (\<lambda>i. i_bankAccountId i = A) incomesArray. i_amount i),
           a_totalExpense :=
             (\<Sum>e\<leftarrow>filter (\<lambda>e. e_bankAccountId e = A) expensesArray. e_amount e),
           a_currentBalance :=
             (\<Sum>i\<leftarrow>filter (\<lambda>i. i_bankAccountId i = A) incomesArray. i_amount i)
             - (\<Sum>e\<leftarrow>filter (\<lambda>e. e_bankAccountId e = A) expensesArray. e_amount e) \<rparr>)"
proof -
  from assms(1) have "a_id account = A"
    by (induction "bankAccounts c") (auto simp: find_Some_iff)
  then show ?thesis
    using assms
    by (simp add: recalculateAndUpdateTotalsWithArray_def Let_def
        updateAutoTrackedSavingsForAccount_def updateBankAccount_def foldl_add_sum_list)
qed

subsection \<open>Recomputing the totals of an account\<close>

text \<open>
  Claim C1. For a bank account that the component knows and any arrays of incomes and
  expenses, \<^verbatim>\<open>recalculateAndUpdateTotalsWithArray\<close> leaves the list of accounts with the
  same ids, and every account of the list with that id then has as \<^verbatim>\<open>totalIncome\<close> the
  sum of the amounts of the incomes whose \<^verbatim>\<open>bankAccountId\<close> is that id, as \<^verbatim>\<open>totalExpense\<close>
  the sum of the amounts of the matching expenses, and as \<^verbatim>\<open>currentBalance\<close> the
  difference of the two.
\<close>

theorem C1_recomputeAccountTotals:
  fixes c s :: state and account :: bankAccount and incomesArray expensesArray
  defines "s' \<equiv> recalculateAndUpdateTotalsWithArray c (a_id account) incomesArray expensesArray s"
  assumes known: "account \<in> set (bankAccounts c)"
  shows "map a_id (bankAccounts s') = map a_id (bankAccounts s)
       \<and> (\<forall>a \<in> set (bankAccounts s'). a_id a = a_id account \<longrightarrow>
            a_totalIncome a =
              (\<Sum>i\<leftarrow>filter (\<lambda>i. i_bankAccountId i = a_id account) incomesArray. i_amount i)
          \<and> a_totalExpense a =
              (\<Sum>e\<leftarrow>filter (\<lambda>e. e_bankAccountId e = a_id account) expensesArray. e_amount e)
          \<and> a_currentBalance a = a_totalIncome a - a_totalExpense a)"
proof -
  from known obtain found where
    found: "find (\<lambda>a. a_id a = a_id account) (bankAccounts c) = Some found"
    and id: "a_id found = a_id account"
    using find_in_set [of account "bankAccounts c" "\<lambda>a. a_id a = a_id account"] by auto
  show ?thesis
    unfolding s'_def recalculateAndUpdateTotalsWithArray_def
    by (auto simp: found id Let_def bankAccounts_updateAuto updateBankAccount_def
        foldl_add_sum_list o_def)
qed

theorem C1_recomputeAccountTotals_witness:
  "ex_account \<in> set (bankAccounts ex_state)
   \<and> a_id ex_account = ''acc1''
   \<and> map a_id (bankAccounts (recalculateAndUpdateTotalsWithArray ex_state ''acc1''
        [ex_salary] [ex_food, ex_bill] ex_state)) = [''acc1'']
   \<and> map a_totalIncome (bankAccounts (recalculateAndUpdateTotalsWithArray ex_state ''acc1''
        [ex_salary] [ex_food, ex_bill] ex_state)) = [300]
   \<and> map a_totalExpense (bankAccounts (recalculateAndUpdateTotalsWithArray ex_state ''acc1''
        [ex_salary] [ex_food, ex_bill] ex_state)) = [6050]
   \<and> map a_currentBalance (bankAccounts (recalculateAndUpdateTotalsWithArray ex_state ''acc1''
        [ex_salary] [ex_food, ex_bill] ex_state)) = [- 5750]"
proof -
  have k: "ex_account \<in> set (bankAccounts ex_state)"
    by (simp add: ex_state_def)
  have i: "a_id ex_account = ''acc1''"
    by (simp add: ex_account_def)
  have v: "map a_id (bankAccounts (recalculateAndUpdateTotalsWithArray ex_state ''acc1''
        [ex_salary] [ex_food, ex_bill] ex_state)) = [''acc1'']
     \<and> map a_totalIncome (bankAccounts (recalculateAndUpdateTotalsWithArray ex_state ''acc1''
        [ex_salary] [ex_food, ex_bill] ex_state)) = [300]
     \<and> map a_totalExpense (bankAccounts (recalculateAndUpdateTotalsWithArray ex_state ''acc1''
        [ex_salary] [ex_food, ex_bill] ex_state)) = [6050]
     \<and> map a_currentBalance (bankAccounts (recalculateAndUpdateTotalsWithArray ex_state ''acc1''
        [ex_salary] [ex_food, ex_bill] ex_state)) = [- 5750]"
    by code_simp
  show ?thesis
    using k i v
      C1_recomputeAccountTotals [where account = ex_account and c = ex_state and s = ex_state
        and incomesArray = "[ex_salary]" and expensesArray = "[ex_food, ex_bill]", OF k]
    by simp
qed

subsection \<open>Remote snapshots\<close>

text \<open>
  Claim C2, as stated, fails: a snapshot listener replaces the array and does not recompute
  the totals of the account or the goals. The user adds \<open>ex_bill\<close> (6000) locally, then a
  snapshot of the expenses arrives that holds only \<open>ex_food\<close> (50). The array of
  expenses then is the snapshot, but the account still has a \<^verbatim>\<open>totalExpense\<close> of 6000 and
  the goals what they had; running \<^verbatim>\<open>recalculateAndUpdateTotalsWithArray\<close> on that state would
  give a \<^verbatim>\<open>totalExpense\<close> of 50 and an \<^verbatim>\<open>autoTrackedAmount\<close> of 250.
\<close>

theorem C2_snapshot_counterexample:
  "expenses ex_optimistic = [ex_bill]
   \<and> expenses ex_after_snapshot = [ex_food]
   \<and> map a_totalExpense (bankAccounts ex_after_snapshot) = [6000]
   \<and> map g_autoTrackedAmount (savingsGoals ex_after_snapshot) = [Some 0, Some 7]
   \<and> map a_totalExpense (bankAccounts (recalculateAndUpdateTotalsWithArray ex_after_snapshot
        ''acc1'' (incomes ex_after_snapshot) (expenses ex_after_snapshot) ex_after_snapshot))
       = [50]
   \<and> map g_autoTrackedAmount (savingsGoals (recalculateAndUpdateTotalsWithArray
        ex_after_snapshot ''acc1'' (incomes ex_after_snapshot) (expenses ex_after_snapshot)
        ex_after_snapshot)) = [Some 250, Some 7]"
  by code_simp

text \<open>
  Claim C2, amended. On a snapshot of the expenses (of the incomes) of the selected
  account the listener replaces the array of expenses (incomes) by exactly the contents
  of the snapshot, sets the component's own figure \<^verbatim>\<open>totalExpense\<close> (\<^verbatim>\<open>totalIncome\<close>) to
  the sum of the amounts of the snapshot and clears \<^verbatim>\<open>loading\<close>; it changes nothing else:
  the bank accounts and their totals, the selected account, the savings goals and the
  storage stay as they are.
\<close>

theorem C2_snapshot:
  "expenses (onExpensesSnapshot expenseList s) = expenseList
   \<and> totalExpense (onExpensesSnapshot expenseList s) = (\<Sum>e\<leftarrow>expenseList. e_amount e)
   \<and> onExpensesSnapshot expenseList s =
       s\<lparr> expenses := expenseList, totalExpense := (\<Sum>e\<leftarrow>expenseList. e_amount e),
          loading := False \<rparr>
   \<and> bankAccounts (onExpensesSnapshot expenseList s) = bankAccounts s
   \<and> selectedBankAccount (onExpensesSnapshot expenseList s) = selectedBankAccount s
   \<and> savingsGoals (onExpensesSnapshot expenseList s) = savingsGoals s
   \<and> storage (onExpensesSnapshot expenseList s) = storage s
   \<and> incomes (onIncomesSnapshot incomeList s) = incomeList
   \<and> totalIncome (onIncomesSnapshot incomeList s) = (\<Sum>i\<leftarrow>incomeList. i_amount i)
   \<and> onIncomesSnapshot incomeList s =
       s\<lparr> incomes := incomeList, totalIncome := (\<Sum>i\<leftarrow>incomeList. i_amount i),
          loading := False \<rparr>
   \<and> bankAccounts (onIncomesSnapshot incomeList s) = bankAccounts s
   \<and> selectedBankAccount (onIncomesSnapshot incomeList s) = selectedBankAccount s
   \<and> savingsGoals (onIncomesSnapshot incomeList s) = savingsGoals s
   \<and> storage (onIncomesSnapshot incomeList s) = storage s"
proof -
  have e: "foldl (\<lambda>sum item. sum + numberOr0 (e_amount item)) a expenseList
             = a + (\<Sum>e\<leftarrow>expenseList. e_amount e)" for a
    by (induction expenseList arbitrary: a) (simp_all add: numberOr0_def)
  have i: "foldl (\<lambda>sum item. sum + numberOr0 (i_amount item)) a incomeList
             = a + (\<Sum>i\<leftarrow>incomeList. i_amount i)" for a
    by (induction incomeList arbitrary: a) (simp_all add: numberOr0_def)
  show ?thesis
    by (simp add: onExpensesSnapshot_def onIncomesSnapshot_def e i Let_def)
qed

theorem C2_snapshot_witness:
  "expenses (onExpensesSnapshot [ex_food] ex_optimistic) = [ex_food]
   \<and> totalExpense (onExpensesSnapshot [ex_food] ex_optimistic) = 50
   \<and> bankAccounts (onExpensesSnapshot [ex_food] ex_optimistic) = bankAccounts ex_optimistic
   \<and> savingsGoals (onExpensesSnapshot [ex_food] ex_optimistic) = savingsGoals ex_optimistic
   \<and> incomes (onIncomesSnapshot [ex_salary] ex_optimistic) = [ex_salary]
   \<and> totalIncome (onIncomesSnapshot [ex_salary] ex_optimistic) = 300"
  using C2_snapshot [where expenseList = "[ex_food]" and s = ex_optimistic
      and incomeList = "[ex_salary]"]
  by (simp add: ex_food_def ex_salary_def)

subsection \<open>Savings goals\<close>

text \<open>
  Claim C10, as stated, fails. In \<open>ex_state\<close> the account \<open>acc1\<close> is selected and the
  second goal belongs to \<open>acc2\<close>, with an \<^verbatim>\<open>autoTrackedAmount\<close> of 7. Recomputing the totals
  of \<open>acc1\<close> leaves that goal alone, but it replaces the selected account by the updated
  one, and the effect that runs when the selected account has changed then gives the goal
  of \<open>acc2\<close> the 250 of \<open>acc1\<close>. And \<^verbatim>\<open>updateAutoTrackedSavingsForAccount\<close> stores the goals
  of its render: when a goal of \<open>acc2\<close> is added and an expense of \<open>acc1\<close> is then added by
  a handler of the same render, the recomputation drops the new goal.
\<close>

theorem C10_other_goals_counterexample:
  "map g_bankAccountId (savingsGoals ex_state) = [None, Some ''acc2'']
   \<and> map g_autoTrackedAmount (savingsGoals ex_state) = [Some 10, Some 7]
   \<and> map g_autoTrackedAmount (savingsGoals ex_recomputed) = [Some 250, Some 7]
   \<and> map_option a_totalExpense (selectedBankAccount ex_state) = Some 0
   \<and> map_option a_totalExpense (selectedBankAccount ex_recomputed) = Some 50
   \<and> map g_autoTrackedAmount (savingsGoals (selectedAccountEffect toLowerCase_ascii
        ex_recomputed (incomes ex_recomputed) (budgets ex_recomputed)
        (savingsGoals ex_recomputed) ex_recomputed)) = [Some 250, Some 250]
   \<and> map g_id (savingsGoals ex_goal_added) = [''g1'', ''g2'', ''g3'']
   \<and> map g_bankAccountId (savingsGoals ex_goal_added) = [None, Some ''acc2'', Some ''acc2'']
   \<and> map g_id (savingsGoals ex_then_expense) = [''g1'', ''g2'']"
  by code_simp

text \<open>
  Claim C10, amended. When the totals of the account \<open>A\<close> are recomputed, by
  \<^verbatim>\<open>updateAutoTrackedSavingsForAccount\<close> or through \<^verbatim>\<open>recalculateAndUpdateTotalsWithArray\<close>, by
  a handler whose render has the current goals, the call leaves every goal whose
  \<^verbatim>\<open>bankAccountId\<close> is set (a non-empty string, what the code tests) and differs from \<open>A\<close>
  as it is, in every field; a goal with no \<^verbatim>\<open>bankAccountId\<close> or with the \<^verbatim>\<open>bankAccountId\<close>
  \<open>A\<close> gets \<open>max 0 (totalIncome - totalExpense)\<close> as its \<^verbatim>\<open>autoTrackedAmount\<close> and changes
  in no other field (through \<^verbatim>\<open>recalculateAndUpdateTotalsWithArray\<close>: with the recomputed
  sums when the render knows the account, and not at all when it does not). When the
  render knows the account \<open>A\<close> and \<open>A\<close> is its selected account, the recomputation also
  replaces the selected account by the updated one, and the effect on a change of the
  selected account, run on the resulting state, sets the \<^verbatim>\<open>autoTrackedAmount\<close> of every
  goal, those of other accounts included, to \<open>max 0\<close> of the recomputed
  \<open>totalIncome - totalExpense\<close> of \<open>A\<close>.
\<close>

theorem C10_other_goals:
  fixes c s :: state and A ti te incomesArray expensesArray toLowerCase
    and account sel :: bankAccount and loadedIncomes loadedBudgets loadedGoals
  defines "s' \<equiv> updateAutoTrackedSavingsForAccount c A ti te s"
    and "s'' \<equiv> recalculateAndUpdateTotalsWithArray c A incomesArray expensesArray s"
    and "ti' \<equiv> (\<Sum>i\<leftarrow>filter (\<lambda>i. i_bankAccountId i = A) incomesArray. i_amount i)"
    and "te' \<equiv> (\<Sum>e\<leftarrow>filter (\<lambda>e. e_bankAccountId e = A) expensesArray. e_amount e)"
  shows "(savingsGoals c = savingsGoals s \<longrightarrow>
            length (savingsGoals s') = length (savingsGoals s)
          \<and> length (savingsGoals s'') = length (savingsGoals s)
          \<and> (\<forall>k < length (savingsGoals s).
               (truthy (g_bankAccountId (savingsGoals s ! k))
                  \<and> g_bankAccountId (savingsGoals s ! k) \<noteq> Some A
                \<longrightarrow> savingsGoals s' ! k = savingsGoals s ! k
                    \<and> savingsGoals s'' ! k = savingsGoals s ! k)
             \<and> (\<not> truthy (g_bankAccountId (savingsGoals s ! k))
                  \<or> g_bankAccountId (savingsGoals s ! k) = Some A
                \<longrightarrow> savingsGoals s' ! k =
                      (savingsGoals s ! k)\<lparr> g_autoTrackedAmount := Some (max 0 (ti - te)) \<rparr>
                    \<and> savingsGoals s'' ! k =
                       (if find (\<lambda>a. a_id a = A) (bankAccounts c) = None
                        then savingsGoals s ! k
                        else (savingsGoals s ! k)
                               \<lparr> g_autoTrackedAmount := Some (max 0 (ti' - te')) \<rparr>))))
       \<and> (find (\<lambda>a. a_id a = A) (bankAccounts c) = Some account
            \<and> selectedBankAccount c = Some sel \<and> a_id sel = A \<longrightarrow>
            selectedBankAccount s'' =
              Some (account\<lparr> a_totalIncome := ti', a_totalExpense := te',
                             a_currentBalance := ti' - te' \<rparr>)
          \<and> savingsGoals (selectedAccountEffect toLowerCase s'' loadedIncomes loadedBudgets
                loadedGoals s'') =
              map (\<lambda>goal. goal\<lparr> g_autoTrackedAmount := Some (max 0 (ti' - te')) \<rparr>)
                (savingsGoals s''))"
proof (intro conjI impI)
  assume current: "savingsGoals c = savingsGoals s"
  show "length (savingsGoals s') = length (savingsGoals s)"
    by (simp add: s'_def savingsGoals_updateAuto current)
  show "length (savingsGoals s'') = length (savingsGoals s)"
    by (simp add: s''_def savingsGoals_recalculate savingsGoals_updateAuto current
        split: option.split)
  show "\<forall>k < length (savingsGoals s).
          (truthy (g_bankAccountId (savingsGoals s ! k))
             \<and> g_bankAccountId (savingsGoals s ! k) \<noteq> Some A
           \<longrightarrow> savingsGoals s' ! k = savingsGoals s ! k
               \<and> savingsGoals s'' ! k = savingsGoals s ! k)
        \<and> (\<not> truthy (g_bankAccountId (savingsGoals s ! k))
             \<or> g_bankAccountId (savingsGoals s ! k) = Some A
           \<longrightarrow> savingsGoals s' ! k =
                 (savingsGoals s ! k)\<lparr> g_autoTrackedAmount := Some (max 0 (ti - te)) \<rparr>
               \<and> savingsGoals s'' ! k =
                  (if find (\<lambda>a. a_id a = A) (bankAccounts c) = None
                   then savingsGoals s ! k
                   else (savingsGoals s ! k)
                          \<lparr> g_autoTrackedAmount := Some (max 0 (ti' - te')) \<rparr>))"
    unfolding s'_def s''_def ti'_def te'_def
    by (auto simp: savingsGoals_updateAuto savingsGoals_recalculate current
        foldl_add_sum_list split: option.split)
next
  assume h: "find (\<lambda>a. a_id a = A) (bankAccounts c) = Some account
            \<and> selectedBankAccount c = Some sel \<and> a_id sel = A"
  then show sel: "selectedBankAccount s'' =
              Some (account\<lparr> a_totalIncome := ti', a_totalExpense := te',
                             a_currentBalance := ti' - te' \<rparr>)"
    unfolding s''_def ti'_def te'_def
    using selectedBankAccount_recalculate [of A c account sel incomesArray expensesArray s]
    by simp
  show "savingsGoals (selectedAccountEffect toLowerCase s'' loadedIncomes loadedBudgets
                loadedGoals s'') =
              map (\<lambda>goal. goal\<lparr> g_autoTrackedAmount := Some (max 0 (ti' - te')) \<rparr>)
                (savingsGoals s'')"
    by (simp add: savingsGoals_selectedAccountEffect sel)
qed

theorem C10_other_goals_witness:
  "savingsGoals ex_state = [ex_goal, ex_goal_other]
   \<and> truthy (g_bankAccountId ex_goal_other) \<and> g_bankAccountId ex_goal_other \<noteq> Some ''acc1''
   \<and> \<not> truthy (g_bankAccountId ex_goal)
   \<and> find (\<lambda>a. a_id a = ''acc1'') (bankAccounts ex_state) = Some ex_account
   \<and> selectedBankAccount ex_state = Some ex_account \<and> a_id ex_account = ''acc1''
   \<and> savingsGoals (updateAutoTrackedSavingsForAccount ex_state ''acc1'' 300 50 ex_state)
       = [ex_goal\<lparr> g_autoTrackedAmount := Some 250 \<rparr>, ex_goal_other]
   \<and> savingsGoals ex_recomputed = [ex_goal\<lparr> g_autoTrackedAmount := Some 250 \<rparr>, ex_goal_other]
   \<and> selectedBankAccount ex_recomputed =
       Some (ex_account\<lparr> a_totalIncome := 300, a_totalExpense := 50,
                         a_currentBalance := 250 \<rparr>)
   \<and> savingsGoals (selectedAccountEffect toLowerCase_ascii ex_recomputed
        (incomes ex_recomputed) (budgets ex_recomputed) (savingsGoals ex_recomputed)
        ex_recomputed)
       = [ex_goal\<lparr> g_autoTrackedAmount := Some 250 \<rparr>,
          ex_goal_other\<lparr> g_autoTrackedAmount := Some 250 \<rparr>]"
proof -
  have g: "savingsGoals ex_state = [ex_goal, ex_goal_other]"
    by (simp add: ex_state_def)
  have t: "truthy (g_bankAccountId ex_goal_other)"
    "g_bankAccountId ex_goal_other \<noteq> Some ''acc1''" "\<not> truthy (g_bankAccountId ex_goal)"
    by (simp_all add: truthy_def ex_goal_def ex_goal_other_def)
  have f: "find (\<lambda>a. a_id a = ''acc1'') (bankAccounts ex_state) = Some ex_account
           \<and> selectedBankAccount ex_state = Some ex_account \<and> a_id ex_account = ''acc1''"
    by (simp add: ex_state_def ex_account_def)
  have v: "savingsGoals (updateAutoTrackedSavingsForAccount ex_state ''acc1'' 300 50 ex_state)
       = [ex_goal\<lparr> g_autoTrackedAmount := Some 250 \<rparr>, ex_goal_other]
   \<and> savingsGoals ex_recomputed = [ex_goal\<lparr> g_autoTrackedAmount := Some 250 \<rparr>, ex_goal_other]"
    by code_simp
  have sums: "(\<Sum>i\<leftarrow>filter (\<lambda>i. i_bankAccountId i = ''acc1'') [ex_salary]. i_amount i) = 300"
    "(\<Sum>e\<leftarrow>filter (\<lambda>e. e_bankAccountId e = ''acc1'') [ex_food]. e_amount e) = 50"
    by (simp_all add: ex_salary_def ex_food_def)
  note w = C10_other_goals [where c = ex_state and s = ex_state and A = "''acc1''"
        and ti = 300 and te = 50 and incomesArray = "[ex_salary]"
        and expensesArray = "[ex_food]" and account = ex_account and sel = ex_account
        and toLowerCase = toLowerCase_ascii
        and loadedIncomes = "incomes ex_recomputed" and loadedBudgets = "budgets ex_recomputed"
        and loadedGoals = "savingsGoals ex_recomputed",
        folded ex_recomputed_def, unfolded sums, THEN conjunct2, rule_format, OF f]
  show ?thesis
    using g t f v w by simp
qed

text \<open>
  When the goals of the render hold a goal of the user with the title, letter case apart,
  \<^verbatim>\<open>addSavingsGoal\<close> changes nothing and logs a warning.
\<close>

lemma addSavingsGoal_rejects_duplicate_of_render:
  assumes "user c = Some uid"
    and "goal \<in> set (savingsGoals c)"
    and "sameTitle toLowerCase (g_title goalData) uid goal"
  shows "addSavingsGoal toLowerCase c goalData newId s =
           s\<lparr> console := console s @
                 [Warn ''A goal with this title already exists:'' (g_title goalData)] \<rparr>"
proof -
  obtain e where
    "find (sameTitle toLowerCase (g_title goalData) uid) (savingsGoals c) = Some e"
    using find_in_set [OF assms(2), of "sameTitle toLowerCase (g_title goalData) uid"] assms(3)
    by blast
  then show ?thesis
    by (simp add: addSavingsGoal_def assms(1))
qed

text \<open>
  Claim C7 (the code departs from it). \<^verbatim>\<open>addSavingsGoal\<close> looks for the title among the
  goals of the render that its closure belongs to, and appends the new goal to the current
  goals. Two calls made by handlers of one render therefore both pass the test: from the
  first state of a signed-in user, calling \<^verbatim>\<open>addSavingsGoal\<close> twice with the title
  \<open>House\<close> leaves two goals of the user with that title, and no warning is logged,
  whatever \<^verbatim>\<open>toLowerCase\<close> does to the title.
\<close>

theorem C7_addSavingsGoal_same_render:
  "savingsGoals (addSavingsGoal toLowerCase ex_first ex_goalData ''g2''
       (addSavingsGoal toLowerCase ex_first ex_goalData ''g1'' ex_first))
     = [ex_goalData\<lparr> g_id := ''g1'', g_userId := ''u1'', g_autoTrackedAmount := Some 0 \<rparr>,
        ex_goalData\<lparr> g_id := ''g2'', g_userId := ''u1'', g_autoTrackedAmount := Some 0 \<rparr>]
   \<and> length (filter (sameTitle toLowerCase (g_title ex_goalData) ''u1'')
        (savingsGoals (addSavingsGoal toLowerCase ex_first ex_goalData ''g2''
          (addSavingsGoal toLowerCase ex_first ex_goalData ''g1'' ex_first)))) = 2
   \<and> console (addSavingsGoal toLowerCase ex_first ex_goalData ''g2''
        (addSavingsGoal toLowerCase ex_first ex_goalData ''g1'' ex_first)) = []"
  by (simp add: addSavingsGoal_def ex_first_def initialState_def sameTitle_def Let_def)

subsection \<open>Creating a bank account\<close>

text \<open>
  Claim C8, as stated, fails: the account is not created with a \<^verbatim>\<open>totalIncome\<close> of \<open>0\<close>.
  For a starting balance of 1000 the account that \<^verbatim>\<open>addBankAccount\<close> stores and selects,
  before any income is seeded, has a \<^verbatim>\<open>totalIncome\<close> of 1000.
\<close>

theorem C8_addBankAccount_counterexample:
  "map a_totalIncome (bankAccounts (addBankAccount_created (initialState (Some ''u1''))
      ex_accountData ''acc9'' ''2024-01-01T00:00:00.000Z'' (initialState (Some ''u1''))))
     = [1000]
   \<and> a_totalIncome (newAccount ex_accountData ''acc9'' ''u1'' ''2024-01-01T00:00:00.000Z'')
       \<noteq> 0"
  by code_simp

text \<open>
  Claim C8, amended. For a signed-in user, creating a bank account with a positive
  starting balance (1000, say) under an id that no account has creates it with
  \<^verbatim>\<open>totalIncome\<close> and \<^verbatim>\<open>currentBalance\<close> equal to the starting balance and \<^verbatim>\<open>totalExpense\<close>
  \<open>0\<close> from the start, appends it to the accounts and selects it; the seeding through
  \<^verbatim>\<open>addIncome\<close> then appends exactly one income, "Initial Balance", of the amount of the
  starting balance, and once it completes the account is still the selected one, with
  the same totals: \<^verbatim>\<open>totalIncome\<close> 1000 and \<^verbatim>\<open>currentBalance\<close> 1000.
\<close>

theorem C8_addBankAccount:
  fixes s :: state and accountData :: bankAccount and accId createdAt incId incDate uid
  defines "account \<equiv> newAccount accountData accId uid createdAt"
  defines "s1 \<equiv> addBankAccount_created s accountData accId createdAt s"
  defines "s' \<equiv> addBankAccount s accountData accId createdAt incId incDate s"
  assumes signedIn: "user s = Some uid"
    and positive: "0 < a_startingBalance accountData"
    and fresh: "accId \<notin> a_id ` set (bankAccounts s)"
  shows "a_totalIncome account = a_startingBalance accountData
       \<and> a_totalExpense account = 0
       \<and> a_currentBalance account = a_startingBalance accountData
       \<and> bankAccounts s1 = bankAccounts s @ [account]
       \<and> selectedBankAccount s1 = Some account
       \<and> incomes s1 = incomes s
       \<and> incomes s' = incomes s @
           [\<lparr> i_id = incId, i_userId = uid, i_bankAccountId = accId,
              i_source = ''Initial Balance'', i_amount = a_startingBalance accountData,
              i_frequency = ''one-time'', i_date = incDate,
              i_description = ''Initial balance at account creation'' \<rparr>]
       \<and> bankAccounts s' = bankAccounts s @ [account]
       \<and> selectedBankAccount s' = Some account"
proof -
  have none: "find (\<lambda>a. a_id a = accId) (bankAccounts s) = None"
    using fresh by (auto simp: find_None_filter filter_empty_conv)
  have id: "a_id account = accId"
    by (simp add: account_def newAccount_def)
  have s1: "s1 = s\<lparr> storage := storage s @ [SaveBankAccount account],
                    bankAccounts := bankAccounts s @ [account],
                    selectedBankAccount := Some account \<rparr>"
    by (simp add: s1_def addBankAccount_created_def signedIn account_def Let_def)
  have s': "s' = addIncome s (initialIncome account (a_startingBalance accountData) incDate)
                   incId s1"
    by (simp add: s'_def addBankAccount_def signedIn positive account_def s1_def Let_def)
  have add: "addIncome s income newId t =
      t\<lparr> storage := storage t @ [SaveIncome (income\<lparr> i_id := newId, i_userId := uid \<rparr>)],
         incomes := incomes t @ [income\<lparr> i_id := newId, i_userId := uid \<rparr>] \<rparr>"
    if "i_bankAccountId income = accId" for income newId t
    using that
    by (simp add: addIncome_def signedIn recalculateAndUpdateTotalsWithArray_def none Let_def)
  have inc: "i_bankAccountId (initialIncome account (a_startingBalance accountData) incDate)
               = accId"
    by (simp add: initialIncome_def id)
  show ?thesis
    unfolding s' add [OF inc]
    by (simp add: s1 account_def newAccount_def initialIncome_def)
qed

theorem C8_addBankAccount_witness:
  "user (initialState (Some ''u1'')) = Some ''u1''
   \<and> 0 < a_startingBalance ex_accountData
   \<and> ''acc9'' \<notin> a_id ` set (bankAccounts (initialState (Some ''u1'')))
   \<and> map a_totalIncome (bankAccounts (addBankAccount (initialState (Some ''u1''))
        ex_accountData ''acc9'' ''2024-01-01T00:00:00.000Z'' ''i9''
        ''2024-01-01T00:00:00.001Z'' (initialState (Some ''u1'')))) = [1000]
   \<and> map a_currentBalance (bankAccounts (addBankAccount (initialState (Some ''u1''))
        ex_accountData ''acc9'' ''2024-01-01T00:00:00.000Z'' ''i9''
        ''2024-01-01T00:00:00.001Z'' (initialState (Some ''u1'')))) = [1000]
   \<and> map i_amount (incomes (addBankAccount (initialState (Some ''u1''))
        ex_accountData ''acc9'' ''2024-01-01T00:00:00.000Z'' ''i9''
        ''2024-01-01T00:00:00.001Z'' (initialState (Some ''u1'')))) = [1000]"
proof -
  have u: "user (initialState (Some ''u1'')) = Some ''u1''"
    by (simp add: initialState_def)
  have p: "0 < a_startingBalance ex_accountData" "a_startingBalance ex_accountData = 1000"
    by (simp_all add: ex_accountData_def)
  have f: "''acc9'' \<notin> a_id ` set (bankAccounts (initialState (Some ''u1'')))"
    by (simp add: initialState_def)
  have e: "bankAccounts (initialState (Some ''u1'')) = []"
    "incomes (initialState (Some ''u1'')) = []"
    by (simp_all add: initialState_def)
  show ?thesis
    using u p f
      C8_addBankAccount [where s = "initialState (Some ''u1'')" and uid = "''u1''"
        and accountData = ex_accountData and accId = "''acc9''"
        and createdAt = "''2024-01-01T00:00:00.000Z''" and incId = "''i9''"
        and incDate = "''2024-01-01T00:00:00.001Z''", OF u p(1) f]
    by (simp add: e newAccount_def)
qed

subsection \<open>The auto-tracked amount is never negative\<close>

lemma nonNegativeGoals_iff:
  "nonNegativeGoals goals \<longleftrightarrow> (\<forall>goal \<in> set goals. \<forall>v. g_autoTrackedAmount goal = Some v \<longrightarrow> 0 \<le> v)"
  by (auto simp: nonNegativeGoals_def list_all_iff split: option.splits)

lemma nonNegative_updateAuto:
  "nonNegativeGoals (savingsGoals c) \<Longrightarrow>
   nonNegativeGoals (savingsGoals (updateAutoTrackedSavingsForAccount c A ti te s))"
  by (auto simp: savingsGoals_updateAuto nonNegativeGoals_iff)

lemma nonNegative_recalculate:
  "nonNegativeGoals (savingsGoals c) \<Longrightarrow> nonNegativeGoals (savingsGoals s) \<Longrightarrow>
   nonNegativeGoals (savingsGoals
     (recalculateAndUpdateTotalsWithArray c A incomesArray expensesArray s))"
  by (simp add: savingsGoals_recalculate nonNegative_updateAuto split: option.split)

lemma nonNegative_updateAll:
  "nonNegativeGoals (savingsGoals s) \<Longrightarrow>
   nonNegativeGoals (savingsGoals (updateAllAutoTrackedSavings c s))"
  by (auto simp: updateAllAutoTrackedSavings_def nonNegativeGoals_iff Let_def
      split: option.split)

lemma nonNegative_addIncome:
  "nonNegativeGoals (savingsGoals c) \<Longrightarrow> nonNegativeGoals (savingsGoals s) \<Longrightarrow>
   nonNegativeGoals (savingsGoals (addIncome c incomeData newId s))"
  by (simp add: addIncome_def Let_def nonNegative_recalculate split: option.split)

lemma nonNegative_updateIncome:
  "nonNegativeGoals (savingsGoals c) \<Longrightarrow> nonNegativeGoals (savingsGoals s) \<Longrightarrow>
   nonNegativeGoals (savingsGoals (updateIncome c income s))"
  by (simp add: updateIncome_def Let_def nonNegative_recalculate)

lemma nonNegative_deleteIncome:
  "nonNegativeGoals (savingsGoals c) \<Longrightarrow> nonNegativeGoals (savingsGoals s) \<Longrightarrow>
   nonNegativeGoals (savingsGoals (deleteIncome c incomeId s))"
  by (simp add: deleteIncome_def Let_def nonNegative_recalculate split: option.split)

lemma nonNegative_addExpense:
  "nonNegativeGoals (savingsGoals c) \<Longrightarrow> nonNegativeGoals (savingsGoals s) \<Longrightarrow>
   nonNegativeGoals (savingsGoals (addExpense c expenseData newId s))"
  by (simp add: addExpense_def Let_def nonNegative_recalculate split: option.split)

lemma nonNegative_updateExpense:
  "nonNegativeGoals (savingsGoals c) \<Longrightarrow> nonNegativeGoals (savingsGoals s) \<Longrightarrow>
   nonNegativeGoals (savingsGoals (updateExpense c expense s))"
  by (simp add: updateExpense_def Let_def nonNegative_recalculate)

lemma nonNegative_deleteExpense:
  "nonNegativeGoals (savingsGoals c) \<Longrightarrow> nonNegativeGoals (savingsGoals s) \<Longrightarrow>
   nonNegativeGoals (savingsGoals (deleteExpense c expenseId s))"
  by (simp add: deleteExpense_def Let_def nonNegative_recalculate split: option.split)

lemma nonNegative_addBankAccount:
  "nonNegativeGoals (savingsGoals s) \<Longrightarrow>
   nonNegativeGoals (savingsGoals (addBankAccount s accountData accId createdAt incId incDate s))"
  by (simp add: addBankAccount_def addBankAccount_created_def Let_def nonNegative_addIncome
      split: option.split)

lemma nonNegative_addSavingsGoal:
  "nonNegativeGoals (savingsGoals s) \<Longrightarrow>
   nonNegativeGoals (savingsGoals (addSavingsGoal toLowerCase c goalData newId s))"
  by (auto simp: addSavingsGoal_def nonNegativeGoals_iff Let_def split: option.split)

lemma nonNegative_updateSavingsGoal:
  "nonNegativeGoals (savingsGoals s) \<Longrightarrow> nonNegativeGoals [goal] \<Longrightarrow>
   nonNegativeGoals (savingsGoals (updateSavingsGoal goal s))"
  by (auto simp: updateSavingsGoal_def nonNegativeGoals_iff)

lemma nonNegative_deleteSavingsGoal:
  "nonNegativeGoals (savingsGoals s) \<Longrightarrow>
   nonNegativeGoals (savingsGoals (deleteSavingsGoal c goalId s))"
  by (auto simp: deleteSavingsGoal_def nonNegativeGoals_iff split: option.split)

lemma removeDuplicateGoals_loop_subset:
  "removeDuplicateGoals_loop toLowerCase c goals seen uniqueGoals s = (result, s') \<Longrightarrow>
   set result \<subseteq> set uniqueGoals \<union> set goals"
proof (induction goals arbitrary: seen uniqueGoals s)
  case Nil
  then show ?case by simp
next
  case (Cons goal goals)
  then show ?case
    by (fastforce split: if_splits)
qed

lemma nonNegative_removeDuplicateGoals:
  assumes "removeDuplicateGoals toLowerCase c goals s = (result, s')" and "nonNegativeGoals goals"
  shows "nonNegativeGoals result"
  using removeDuplicateGoals_loop_subset [of toLowerCase c goals "{}" "[]" s result s'] assms
  by (auto simp: removeDuplicateGoals_def nonNegativeGoals_iff)

lemma nonNegative_refreshData:
  "nonNegativeGoals (savingsGoals s) \<Longrightarrow> nonNegativeGoals loadedGoals \<Longrightarrow>
   nonNegativeGoals (savingsGoals (refreshData toLowerCase c accounts loadedIncomes loadedBudgets
     loadedGoals s))"
  by (auto simp: refreshData_def Let_def split: option.split prod.split
      dest: nonNegative_removeDuplicateGoals)

lemma nonNegative_selectedAccountEffect:
  "nonNegativeGoals (savingsGoals s) \<Longrightarrow> nonNegativeGoals loadedGoals \<Longrightarrow>
   nonNegativeGoals (savingsGoals (selectedAccountEffect toLowerCase c loadedIncomes loadedBudgets
     loadedGoals s))"
  by (auto simp: selectedAccountEffect_def Let_def
      split: option.split prod.split
      intro!: nonNegative_updateAll dest: nonNegative_removeDuplicateGoals)

lemma nonNegative_step:
  "nonNegativeGoals (savingsGoals s) \<Longrightarrow> nonNegativeGoals (suppliedGoals ev) \<Longrightarrow>
   nonNegativeGoals (savingsGoals (step toLowerCase s ev))"
proof (cases ev)
  case (DeleteBankAccount x)
  assume "nonNegativeGoals (savingsGoals s)"
  then show ?thesis
    by (simp add: DeleteBankAccount deleteBankAccount_def Let_def split: option.split)
qed (simp_all add: nonNegative_addBankAccount savingsGoals_updateBankAccount
    setSelectedBankAccount_def nonNegative_addIncome nonNegative_updateIncome
    nonNegative_deleteIncome nonNegative_addExpense nonNegative_updateExpense
    nonNegative_deleteExpense addBudget_def updateBudget_def deleteBudget_def
    nonNegative_addSavingsGoal nonNegative_updateSavingsGoal nonNegative_deleteSavingsGoal
    nonNegative_refreshData nonNegative_updateAuto nonNegative_updateAll
    nonNegative_selectedAccountEffect onExpensesSnapshot_def onIncomesSnapshot_def Let_def
    split: option.split)

lemma nonNegative_steps:
  "nonNegativeGoals (savingsGoals s) \<Longrightarrow>
   \<forall>ev \<in> set evs. nonNegativeGoals (suppliedGoals ev) \<Longrightarrow>
   nonNegativeGoals (savingsGoals (foldl (step toLowerCase) s evs))"
  by (induction evs arbitrary: s) (simp_all add: nonNegative_step)

text \<open>
  Claim C3, as stated, fails: \<^verbatim>\<open>updateSavingsGoal\<close> is a public operation and stores the
  goal it is given as it is. From the first state of a signed-in user, adding a goal and
  then updating it with an \<^verbatim>\<open>autoTrackedAmount\<close> of \<open>-5\<close> reaches a state with a negative
  \<^verbatim>\<open>autoTrackedAmount\<close>.
\<close>

theorem C3_autoTrackedAmount_counterexample:
  "\<not> nonNegativeGoals (savingsGoals
       (foldl (step toLowerCase_ascii) (initialState (Some ''u1''))
          [AddSavingsGoal ex_goal ''g1'', UpdateSavingsGoal ex_goal_negative]))"
  by code_simp

text \<open>
  Claim C3, amended. In every state reached from the first one by public operations (and
  the reactions of the component), no goal has a negative \<^verbatim>\<open>autoTrackedAmount\<close>, provided
  the goals that come in as they are, from the caller of \<^verbatim>\<open>updateSavingsGoal\<close> and from
  storage on a reload, have none. The operations that refresh the amount clamp it at zero:
  \<^verbatim>\<open>updateAutoTrackedSavingsForAccount\<close> for the account \<open>A\<close> stores the goals of its render
  with \<open>max 0 (totalIncome - totalExpense)\<close> of its arguments in the goals that have no
  \<^verbatim>\<open>bankAccountId\<close> or the \<^verbatim>\<open>bankAccountId\<close> \<open>A\<close>; the recomputation of the totals of an
  account that the render knows does the same with the recomputed sums;
  \<^verbatim>\<open>updateAllAutoTrackedSavings\<close> stores the goals of its render with
  \<open>max 0 (totalIncome - totalExpense)\<close> of the selected account in every goal, whatever
  account the goal belongs to; and \<^verbatim>\<open>addSavingsGoal\<close>, for a signed-in user of whom the
  render has no goal with the title, appends the goal with
  \<open>max 0 (totalIncome - totalExpense)\<close> of the selected account, or \<open>0\<close> when no account
  is selected.
\<close>

theorem C3_autoTrackedAmount:
  fixes c s :: state and sel :: bankAccount and goalData :: savingsGoal
    and toLowerCase uid evs A ti te incomesArray expensesArray u newId
  assumes supplied: "\<forall>ev \<in> set evs. nonNegativeGoals (suppliedGoals ev)"
  shows "nonNegativeGoals (savingsGoals (foldl (step toLowerCase) (initialState uid) evs))
       \<and> savingsGoals (updateAutoTrackedSavingsForAccount c A ti te s) =
           map (\<lambda>goal. if \<not> truthy (g_bankAccountId goal) \<or> g_bankAccountId goal = Some A
                        then goal\<lparr> g_autoTrackedAmount := Some (max 0 (ti - te)) \<rparr>
                        else goal) (savingsGoals c)
       \<and> (find (\<lambda>a. a_id a = A) (bankAccounts c) \<noteq> None \<longrightarrow>
            savingsGoals (recalculateAndUpdateTotalsWithArray c A incomesArray expensesArray s) =
              savingsGoals (updateAutoTrackedSavingsForAccount c A
                (\<Sum>i\<leftarrow>filter (\<lambda>i. i_bankAccountId i = A) incomesArray. i_amount i)
                (\<Sum>e\<leftarrow>filter (\<lambda>e. e_bankAccountId e = A) expensesArray. e_amount e) s))
       \<and> (selectedBankAccount c = Some sel \<longrightarrow>
            savingsGoals (updateAllAutoTrackedSavings c s) =
              map (\<lambda>goal. goal\<lparr> g_autoTrackedAmount :=
                                  Some (max 0 (a_totalIncome sel - a_totalExpense sel)) \<rparr>)
                (savingsGoals c))
       \<and> (user c = Some u
            \<and> find (sameTitle toLowerCase (g_title goalData) u) (savingsGoals c) = None \<longrightarrow>
            savingsGoals (addSavingsGoal toLowerCase c goalData newId s) =
              savingsGoals s @
                [goalData\<lparr> g_id := newId, g_userId := u,
                    g_autoTrackedAmount :=
                      Some (max 0 (case selectedBankAccount c of
                                     Some sel \<Rightarrow> a_totalIncome sel - a_totalExpense sel
                                   | None \<Rightarrow> 0)) \<rparr>])"
proof (intro conjI impI)
  show "nonNegativeGoals (savingsGoals (foldl (step toLowerCase) (initialState uid) evs))"
    using supplied
    by (intro nonNegative_steps) (simp_all add: initialState_def nonNegativeGoals_def)
  show "savingsGoals (updateAutoTrackedSavingsForAccount c A ti te s) =
           map (\<lambda>goal. if \<not> truthy (g_bankAccountId goal) \<or> g_bankAccountId goal = Some A
                        then goal\<lparr> g_autoTrackedAmount := Some (max 0 (ti - te)) \<rparr>
                        else goal) (savingsGoals c)"
    by (rule savingsGoals_updateAuto)
next
  assume "find (\<lambda>a. a_id a = A) (bankAccounts c) \<noteq> None"
  then show "savingsGoals (recalculateAndUpdateTotalsWithArray c A incomesArray expensesArray s) =
              savingsGoals (updateAutoTrackedSavingsForAccount c A
                (\<Sum>i\<leftarrow>filter (\<lambda>i. i_bankAccountId i = A) incomesArray. i_amount i)
                (\<Sum>e\<leftarrow>filter (\<lambda>e. e_bankAccountId e = A) expensesArray. e_amount e) s)"
    by (auto simp: savingsGoals_recalculate foldl_add_sum_list)
next
  assume "selectedBankAccount c = Some sel"
  then show "savingsGoals (updateAllAutoTrackedSavings c s) =
              map (\<lambda>goal. goal\<lparr> g_autoTrackedAmount :=
                                  Some (max 0 (a_totalIncome sel - a_totalExpense sel)) \<rparr>)
                (savingsGoals c)"
    by (simp add: savingsGoals_updateAll)
next
  assume "user c = Some u
            \<and> find (sameTitle toLowerCase (g_title goalData) u) (savingsGoals c) = None"
  then show "savingsGoals (addSavingsGoal toLowerCase c goalData newId s) =
              savingsGoals s @
                [goalData\<lparr> g_id := newId, g_userId := u,
                    g_autoTrackedAmount :=
                      Some (max 0 (case selectedBankAccount c of
                                     Some sel \<Rightarrow> a_totalIncome sel - a_totalExpense sel
                                   | None \<Rightarrow> 0)) \<rparr>]"
    by (simp add: addSavingsGoal_def Let_def)
qed

theorem C3_autoTrackedAmount_witness:
  "nonNegativeGoals (suppliedGoals (UpdateSavingsGoal ex_goal))
   \<and> map g_autoTrackedAmount (savingsGoals (foldl (step toLowerCase_ascii)
        (initialState (Some ''u1''))
        [AddSavingsGoal ex_goal_negative ''g1'',
         AddBankAccount ex_accountData ''acc1'' ''2024-01-01T00:00:00.000Z'' ''i1''
           ''2024-01-01T00:00:00.001Z'',
         AddExpense ex_bill ''e1'',
         UpdateAllAutoTrackedSavings,
         UpdateSavingsGoal ex_goal])) = [Some 10]
   \<and> nonNegativeGoals (savingsGoals (foldl (step toLowerCase_ascii)
        (initialState (Some ''u1''))
        [AddSavingsGoal ex_goal_negative ''g1'',
         AddBankAccount ex_accountData ''acc1'' ''2024-01-01T00:00:00.000Z'' ''i1''
           ''2024-01-01T00:00:00.001Z'',
         AddExpense ex_bill ''e1'',
         UpdateAllAutoTrackedSavings,
         UpdateSavingsGoal ex_goal]))
   \<and> selectedBankAccount ex_state = Some ex_account
   \<and> a_totalIncome ex_account - a_totalExpense ex_account = 5000
   \<and> map g_bankAccountId (savingsGoals ex_state) = [None, Some ''acc2'']
   \<and> savingsGoals (updateAllAutoTrackedSavings ex_state ex_state) =
       [ex_goal\<lparr> g_autoTrackedAmount := Some 5000 \<rparr>,
        ex_goal_other\<lparr> g_autoTrackedAmount := Some 5000 \<rparr>]
   \<and> find (\<lambda>a. a_id a = ''acc1'') (bankAccounts ex_state) \<noteq> None
   \<and> savingsGoals ex_recomputed =
       [ex_goal\<lparr> g_autoTrackedAmount := Some 250 \<rparr>, ex_goal_other]
   \<and> user ex_state = Some ''u1''
   \<and> find (sameTitle toLowerCase_ascii (g_title ex_goalData) ''u1'') (savingsGoals ex_state)
       = None
   \<and> savingsGoals ex_goal_added =
       [ex_goal, ex_goal_other,
        ex_goalData\<lparr> g_id := ''g3'', g_userId := ''u1'',
                      g_autoTrackedAmount := Some 5000 \<rparr>]"
proof -
  let ?evs = "[AddSavingsGoal ex_goal_negative ''g1'',
         AddBankAccount ex_accountData ''acc1'' ''2024-01-01T00:00:00.000Z'' ''i1''
           ''2024-01-01T00:00:00.001Z'',
         AddExpense ex_bill ''e1'',
         UpdateAllAutoTrackedSavings,
         UpdateSavingsGoal ex_goal]"
  have h: "\<forall>ev \<in> set ?evs. nonNegativeGoals (suppliedGoals ev)"
    by (simp add: nonNegativeGoals_def ex_goal_def)
  have g: "nonNegativeGoals (suppliedGoals (UpdateSavingsGoal ex_goal))"
    by (simp add: nonNegativeGoals_def ex_goal_def)
  have v: "map g_autoTrackedAmount (savingsGoals (foldl (step toLowerCase_ascii)
        (initialState (Some ''u1'')) ?evs)) = [Some 10]"
    by code_simp
  have sel: "selectedBankAccount ex_state = Some ex_account"
    "a_totalIncome ex_account - a_totalExpense ex_account = 5000"
    "map g_bankAccountId (savingsGoals ex_state) = [None, Some ''acc2'']"
    "savingsGoals ex_state = [ex_goal, ex_goal_other]"
    "user ex_state = Some ''u1''"
    by (simp_all add: ex_state_def ex_account_def ex_goal_def ex_goal_other_def)
  have f: "find (\<lambda>a. a_id a = ''acc1'') (bankAccounts ex_state) \<noteq> None"
    by (simp add: ex_state_def ex_account_def)
  have n: "find (sameTitle toLowerCase_ascii (g_title ex_goalData) ''u1'')
             (savingsGoals ex_state) = None"
    by code_simp
  have r: "savingsGoals ex_recomputed =
       [ex_goal\<lparr> g_autoTrackedAmount := Some 250 \<rparr>, ex_goal_other]"
    by code_simp
  note w = C3_autoTrackedAmount [OF h, where toLowerCase = toLowerCase_ascii
      and uid = "Some ''u1''" and c = ex_state and s = ex_state and sel = ex_account
      and u = "''u1''" and goalData = ex_goalData and newId = "''g3''" and A = "''acc1''"
      and incomesArray = "[ex_salary]" and expensesArray = "[ex_food]"]
  have all: "savingsGoals (updateAllAutoTrackedSavings ex_state ex_state) =
       [ex_goal\<lparr> g_autoTrackedAmount := Some 5000 \<rparr>,
        ex_goal_other\<lparr> g_autoTrackedAmount := Some 5000 \<rparr>]"
    using w sel by simp
  have add: "savingsGoals ex_goal_added =
       [ex_goal, ex_goal_other,
        ex_goalData\<lparr> g_id := ''g3'', g_userId := ''u1'',
                      g_autoTrackedAmount := Some 5000 \<rparr>]"
    using w sel n by (simp add: ex_goal_added_def)
  have inv: "nonNegativeGoals (savingsGoals (foldl (step toLowerCase_ascii)
        (initialState (Some ''u1'')) ?evs))"
    using w by blast
  show ?thesis
    using g v inv sel f r n all add by simp
qed

end
